theory Spec2Isabelle
  imports Complex_Main "HOL-Library.Sublist"
begin

section \<open>Configuration (lib/websocket/config.ts)\<close>

text \<open>
  The type \<open>WebSocketConfig\<close> is declared in \<open>types/websocket.ts\<close>; its shape is
  read off the literal \<open>WS_CONFIG\<close>.  JavaScript numbers that are durations or
  factors are reals (IEEE rounding is not modelled), numbers that are counts are
  naturals.
\<close>

record ReconnectConfig =
  rc_enabled :: bool
  maxAttempts :: nat
  initialDelay :: real
  maxDelay :: real
  backoffMultiplier :: real

record HeartbeatConfig =
  hb_enabled :: bool
  interval :: real
  timeout :: real

record MessageQueueConfig =
  mq_enabled :: bool
  maxSize :: nat

record WebSocketConfig =
  url :: string
  reconnect :: ReconnectConfig
  heartbeat :: HeartbeatConfig
  messageQueue_cfg :: MessageQueueConfig

text \<open>\<open>WS_CONFIG\<close>; the url comes from the build environment and is a parameter.\<close>

definition WS_CONFIG :: "string \<Rightarrow> WebSocketConfig" where
  "WS_CONFIG u =
     \<lparr> url = u,
       reconnect = \<lparr> rc_enabled = True, maxAttempts = 10, initialDelay = 1000,
                     maxDelay = 30000, backoffMultiplier = 1.5 \<rparr>,
       heartbeat = \<lparr> hb_enabled = True, interval = 30000, timeout = 5000 \<rparr>,
       messageQueue_cfg = \<lparr> mq_enabled = True, maxSize = 50 \<rparr> \<rparr>"

definition SESSION_ID_KEY :: string where
  "SESSION_ID_KEY = ''servergem_session_id''"

text \<open>
  \<open>generateSessionId\<close>: the two arguments are the decimal text of \<open>Date.now()\<close> and
  the base-36 fragment of \<open>Math.random()\<close>, both supplied by the environment.
\<close>

definition generateSessionId :: "string \<Rightarrow> string \<Rightarrow> string" where
  "generateSessionId now rnd = ''session_'' @ now @ ''_'' @ rnd"

text \<open>
  \<open>getSessionId\<close> over the storage \<open>st\<close>: \<open>!sessionId\<close> holds for \<open>null\<close> and for
  the empty string.  Returns the identity and the storage after the call.
\<close>

definition getSessionId ::
  "string \<Rightarrow> string \<Rightarrow> (string \<rightharpoonup> string) \<Rightarrow> string \<times> (string \<rightharpoonup> string)" where
  "getSessionId now rnd st =
     (case st SESSION_ID_KEY of
        Some s \<Rightarrow>
          if s = [] then
            (generateSessionId now rnd, st(SESSION_ID_KEY \<mapsto> generateSessionId now rnd))
          else (s, st)
      | None \<Rightarrow>
          (generateSessionId now rnd, st(SESSION_ID_KEY \<mapsto> generateSessionId now rnd)))"

section \<open>The client and its browser environment (lib/websocket/WebSocketClient.ts)\<close>

datatype ConnectionState =
  Idle | Connecting | Connected | Reconnecting | Disconnected | Error

record ConnectionStatus =
  state :: ConnectionState
  error :: "string option"
  reconnectAttempt :: "nat option"
  lastConnected :: "real option"

datatype ClientMessage =
    Init (session_id: string) (instance_id: string) (is_reconnect: bool) (init_timestamp: real)
  | Chat string
  | Ping (ping_timestamp: real)

text \<open>
  An inbound frame after \<open>JSON.parse\<close>: only the discriminator \<open>type\<close> is looked at
  by the client.
\<close>

datatype ServerMessage = Pong | ServerMsg string

datatype ReadyState = CONNECTING | OPEN | CLOSING | CLOSED

text \<open>
  A \<open>WebSocket\<close> object of the browser.  \<open>openListener\<close> is the timer captured by the
  one-shot \<open>open\<close> listener that \<open>connect\<close> adds.
\<close>

record socket =
  readyState :: ReadyState
  openListener :: "nat option"

datatype TimerKind =
  ConnectionTimeout | ReconnectTimer | HeartbeatInterval | HeartbeatTimeout

text \<open>
  A timer of the browser (\<open>setTimeout\<close>, \<open>setInterval\<close>).  Its identifier is its
  position in the table \<open>timers\<close>; \<open>pending\<close> becomes false when it is cleared or,
  for a timeout, when it has fired.
\<close>

record timer =
  kind :: TimerKind
  delay :: real
  due :: real
  pending :: bool

text \<open>The private fields of the class \<open>WebSocketClient\<close>.\<close>

record WebSocketClient =
  ws :: "nat option"
  sessionId :: string
  instanceId :: string
  config :: WebSocketConfig
  connectionStatus :: ConnectionStatus
  reconnectAttempts :: nat
  reconnectTimer :: "nat option"
  isIntentionalClose :: bool
  heartbeatTimer :: "nat option"
  heartbeatTimeoutTimer :: "nat option"
  messageQueue :: "ClientMessage list"

text \<open>
  The client together with what it acts on: the sockets and timers of the browser, the
  clock, and what it emits.  \<open>sent\<close> lists the frames handed to \<open>ws.send\<close> with the
  socket they went to; \<open>statusEvents\<close>, \<open>errorEvents\<close> and \<open>messageEvents\<close> list
  what every registered connection-change, error and message handler was called with
  (an exception of a handler is caught and has no effect on the client).
  \<open>ctorThrows\<close> is the message of the exception that \<open>new WebSocket(url)\<close> raises, if
  it raises; \<open>sendThrows m\<close> that of \<open>ws.send(JSON.stringify(m))\<close>.  The handler
  registry itself (\<open>onMessage\<close>, \<open>onError\<close>, \<open>onConnectionChange\<close>, and \<open>destroy\<close>,
  which empties it) is outside the model.
\<close>

record world = WebSocketClient +
  sockets :: "socket list"
  timers :: "timer list"
  clock :: real
  sent :: "(nat \<times> ClientMessage) list"
  statusEvents :: "ConnectionStatus list"
  errorEvents :: "string list"
  messageEvents :: "ServerMessage list"
  ctorThrows :: "string option"
  sendThrows :: "ClientMessage \<Rightarrow> string option"

subsection \<open>Browser primitives\<close>

definition setTimer :: "TimerKind \<Rightarrow> real \<Rightarrow> world \<Rightarrow> nat \<times> world" where
  "setTimer k d w =
     (length (timers w),
      w\<lparr>timers := timers w @ [\<lparr>kind = k, delay = d, due = clock w + d, pending = True\<rparr>]\<rparr>)"

definition clearTimer :: "nat \<Rightarrow> world \<Rightarrow> world" where
  "clearTimer t w =
     (if t < length (timers w)
      then w\<lparr>timers := (timers w)[t := (timers w ! t)\<lparr>pending := False\<rparr>]\<rparr>
      else w)"

definition readyStateOf :: "world \<Rightarrow> nat \<Rightarrow> ReadyState" where
  "readyStateOf w s = (if s < length (sockets w) then readyState (sockets w ! s) else CLOSED)"

definition setReadyState :: "nat \<Rightarrow> ReadyState \<Rightarrow> world \<Rightarrow> world" where
  "setReadyState s r w =
     (if s < length (sockets w)
      then w\<lparr>sockets := (sockets w)[s := (sockets w ! s)\<lparr>readyState := r\<rparr>]\<rparr>
      else w)"

text \<open>
  \<open>WebSocket.close()\<close>: a socket that is connecting or open starts closing, the browser
  delivers its \<open>close\<close> event later; on a closing or closed socket nothing happens.
\<close>

definition socketClose :: "nat \<Rightarrow> world \<Rightarrow> world" where
  "socketClose s w =
     (if readyStateOf w s = CONNECTING \<or> readyStateOf w s = OPEN
      then setReadyState s CLOSING w else w)"

text \<open>\<open>this.ws?.close()\<close>\<close>

definition wsClose :: "world \<Rightarrow> world" where
  "wsClose w = (case ws w of None \<Rightarrow> w | Some s \<Rightarrow> socketClose s w)"

subsection \<open>State management\<close>

definition updateConnectionStatus ::
  "ConnectionState \<Rightarrow> string option \<Rightarrow> nat option \<Rightarrow> world \<Rightarrow> world" where
  "updateConnectionStatus s e a w =
     (let cs = \<lparr> state = s, error = e, reconnectAttempt = a,
                 lastConnected = (if s = Connected then Some (clock w)
                                  else lastConnected (connectionStatus w)) \<rparr>
      in w\<lparr>connectionStatus := cs, statusEvents := statusEvents w @ [cs]\<rparr>)"

definition emitError :: "string \<Rightarrow> world \<Rightarrow> world" where
  "emitError e w = w\<lparr>errorEvents := errorEvents w @ [e]\<rparr>"

text \<open>The socket \<open>this.ws\<close> when it is there and open.\<close>

definition openSocket :: "world \<Rightarrow> nat option" where
  "openSocket w =
     (case ws w of
        None \<Rightarrow> None
      | Some s \<Rightarrow> if readyStateOf w s = OPEN then Some s else None)"

definition isConnected :: "world \<Rightarrow> bool" where
  "isConnected w = (openSocket w \<noteq> None)"

subsection \<open>Message queue and sending\<close>

definition queueMessage :: "ClientMessage \<Rightarrow> world \<Rightarrow> world" where
  "queueMessage m w =
     (let q = (if length (messageQueue w) \<ge> maxSize (messageQueue_cfg (config w))
               then tl (messageQueue w) else messageQueue w)
      in w\<lparr>messageQueue := q @ [m]\<rparr>)"

text \<open>
  \<open>sendMessage\<close>: \<open>Inl e\<close> is the exception \<open>Error(e)\<close> thrown to the caller, \<open>Inr b\<close>
  the boolean returned.  The world is returned in both cases.
\<close>

definition sendMessage :: "ClientMessage \<Rightarrow> world \<Rightarrow> (string + bool) \<times> world" where
  "sendMessage m w =
     (case openSocket w of
        None \<Rightarrow>
          (if mq_enabled (messageQueue_cfg (config w))
           then (Inr False, queueMessage m w)
           else (Inl ''WebSocket not connected and message queue disabled'', w))
      | Some s \<Rightarrow>
          (case sendThrows w m of
             None \<Rightarrow> (Inr True, w\<lparr>sent := sent w @ [(s, m)]\<rparr>)
           | Some e \<Rightarrow> (Inr False, emitError e w)))"

text \<open>
  The \<open>forEach\<close> of \<open>flushMessageQueue\<close>: an exception of \<open>sendMessage\<close> leaves the loop.
\<close>

fun sendAll :: "ClientMessage list \<Rightarrow> world \<Rightarrow> (string + unit) \<times> world" where
  "sendAll [] w = (Inr (), w)"
| "sendAll (m # ms) w =
     (case sendMessage m w of
        (Inl e, w') \<Rightarrow> (Inl e, w')
      | (Inr _, w') \<Rightarrow> sendAll ms w')"

definition flushMessageQueue :: "world \<Rightarrow> (string + unit) \<times> world" where
  "flushMessageQueue w =
     (if messageQueue w = [] then (Inr (), w)
      else sendAll (messageQueue w) (w\<lparr>messageQueue := []\<rparr>))"

subsection \<open>Heartbeat\<close>

definition stopHeartbeat :: "world \<Rightarrow> world" where
  "stopHeartbeat w =
     (let w1 = (case heartbeatTimer w of
                  None \<Rightarrow> w
                | Some t \<Rightarrow> (clearTimer t w)\<lparr>heartbeatTimer := None\<rparr>)
      in (case heartbeatTimeoutTimer w1 of
            None \<Rightarrow> w1
          | Some t \<Rightarrow> (clearTimer t w1)\<lparr>heartbeatTimeoutTimer := None\<rparr>))"

definition startHeartbeat :: "world \<Rightarrow> world" where
  "startHeartbeat w =
     (let (t, w1) = setTimer HeartbeatInterval 15000 (stopHeartbeat w)
      in w1\<lparr>heartbeatTimer := Some t\<rparr>)"

text \<open>The callback of the interval set by \<open>startHeartbeat\<close>.\<close>

definition heartbeatTick :: "world \<Rightarrow> (string + unit) \<times> world" where
  "heartbeatTick w =
     (if isConnected w then
        (case sendMessage (Ping (clock w)) w of
           (Inl e, w1) \<Rightarrow> (Inl e, w1)
         | (Inr _, w1) \<Rightarrow>
             (let (t, w2) = setTimer HeartbeatTimeout 30000 w1
              in (Inr (), w2\<lparr>heartbeatTimeoutTimer := Some t\<rparr>)))
      else (Inr (), w))"

text \<open>The callback of the timeout set by the interval callback.\<close>

definition heartbeatTimeoutFired :: "world \<Rightarrow> world" where
  "heartbeatTimeoutFired w = wsClose w"

definition handlePong :: "world \<Rightarrow> world" where
  "handlePong w =
     (case heartbeatTimeoutTimer w of
        None \<Rightarrow> w
      | Some t \<Rightarrow> (clearTimer t w)\<lparr>heartbeatTimeoutTimer := None\<rparr>)"

subsection \<open>Reconnection\<close>

text \<open>
  \<open>Math.pow(backoffMultiplier, reconnectAttempts - 1)\<close>: the exponent is an integer
  that is negative when the counter is 0.  The arithmetic here is exact, where the
  code computes in binary64: with the shipped configuration every delay is a
  multiple of \<open>2^-5\<close> below \<open>2^16\<close> and the two agree; with other factors the code
  rounds (\<open>1000 * 1.1^2\<close> is \<open>1210.0000000000002\<close> there), and a power that
  overflows gives \<open>Infinity\<close> or \<open>NaN\<close> there.
\<close>

definition calculateBackoffDelay :: "world \<Rightarrow> real" where
  "calculateBackoffDelay w =
     (let rc = reconnect (config w);
          d = initialDelay rc * (backoffMultiplier rc powi (int (reconnectAttempts w) - 1))
      in min d (maxDelay rc))"

definition handleReconnect :: "world \<Rightarrow> world" where
  "handleReconnect w =
     (if \<not> rc_enabled (reconnect (config w)) \<or> isIntentionalClose w then w
      else if reconnectAttempts w \<ge> maxAttempts (reconnect (config w)) then
        updateConnectionStatus Error (Some ''Max reconnection attempts reached'') None w
      else
        (let w1 = w\<lparr>reconnectAttempts := reconnectAttempts w + 1\<rparr>;
             d = calculateBackoffDelay w1;
             (t, w2) = setTimer ReconnectTimer d w1;
             w3 = w2\<lparr>reconnectTimer := Some t\<rparr>
         in updateConnectionStatus Reconnecting None (Some (reconnectAttempts w3)) w3))"

text \<open>The callback of the connection timeout set by \<open>connect\<close>.\<close>

definition connectionTimeoutFired :: "world \<Rightarrow> world" where
  "connectionTimeoutFired w =
     (if state (connectionStatus w) = Connecting
      then handleReconnect (wsClose w) else w)"

subsection \<open>Public API\<close>

text \<open>
  \<open>connect\<close>.  The url (and the API key read from storage for it) only selects the
  peer; the environment decides through \<open>ctorThrows\<close> whether the constructor accepts
  it.  The new socket is created connecting, with the one-shot listener that clears the
  connection timeout.
\<close>

definition connect :: "world \<Rightarrow> world" where
  "connect w =
     (if (case ws w of None \<Rightarrow> False | Some s \<Rightarrow> readyStateOf w s = OPEN) then w
      else if (case ws w of None \<Rightarrow> False | Some s \<Rightarrow> readyStateOf w s = CONNECTING) then w
      else
        (let w1 = updateConnectionStatus Connecting None None (w\<lparr>isIntentionalClose := False\<rparr>)
         in (case ctorThrows w1 of
               Some e \<Rightarrow>
                 handleReconnect (emitError e (updateConnectionStatus Error (Some e) None w1))
             | None \<Rightarrow>
                 (let s = length (sockets w1);
                      w2 = w1\<lparr>ws := Some s\<rparr>;
                      (t, w3) = setTimer ConnectionTimeout 10000 w2
                  in w3\<lparr>sockets := sockets w3 @
                            [\<lparr>readyState = CONNECTING, openListener = Some t\<rparr>]\<rparr>))))"

definition cleanup :: "world \<Rightarrow> world" where
  "cleanup w =
     (let w1 = stopHeartbeat w;
          w2 = (case reconnectTimer w1 of
                  None \<Rightarrow> w1
                | Some t \<Rightarrow> (clearTimer t w1)\<lparr>reconnectTimer := None\<rparr>)
      in (case ws w2 of
            None \<Rightarrow> w2
          | Some s \<Rightarrow> (socketClose s w2)\<lparr>ws := None\<rparr>))"

definition disconnect :: "world \<Rightarrow> world" where
  "disconnect w =
     updateConnectionStatus Disconnected None None (cleanup (w\<lparr>isIntentionalClose := True\<rparr>))"

subsection \<open>Socket event handlers\<close>

definition handleOpen :: "world \<Rightarrow> (string + unit) \<times> world" where
  "handleOpen w =
     (let wasReconnect = (reconnectAttempts w > 0);
          w1 = updateConnectionStatus Connected None (Some (if wasReconnect then 1 else 0))
                 (w\<lparr>reconnectAttempts := 0\<rparr>)
      in (case sendMessage (Init (sessionId w1) (instanceId w1) wasReconnect (clock w1)) w1 of
            (Inl e, w2) \<Rightarrow> (Inl e, w2)
          | (Inr _, w2) \<Rightarrow>
              (let w3 = (if hb_enabled (heartbeat (config w2)) then startHeartbeat w2 else w2)
               in if length (messageQueue w3) > 0 then flushMessageQueue w3
                  else (Inr (), w3))))"

text \<open>
  \<open>handleMessage\<close>: the argument is \<open>None\<close> when \<open>JSON.parse(event.data)\<close> or the
  read of \<open>message.type\<close> throws.
\<close>

definition handleMessage :: "ServerMessage option \<Rightarrow> world \<Rightarrow> world" where
  "handleMessage d w =
     (case d of
        None \<Rightarrow> emitError ''Failed to parse server message'' w
      | Some Pong \<Rightarrow> handlePong w
      | Some m \<Rightarrow> w\<lparr>messageEvents := messageEvents w @ [m]\<rparr>)"

definition handleError :: "world \<Rightarrow> world" where
  "handleError w = emitError ''WebSocket connection error'' w"

definition handleClose :: "world \<Rightarrow> world" where
  "handleClose w =
     (let w1 = stopHeartbeat w
      in if \<not> isIntentionalClose w1
         then handleReconnect (updateConnectionStatus Reconnecting None None w1)
         else updateConnectionStatus Disconnected None None w1)"

subsection \<open>Construction\<close>

text \<open>
  \<open>Partial<WebSocketConfig>\<close>: the spread \<open>{ ...WS_CONFIG, ...config }\<close> replaces
  whole top-level fields.
\<close>

record PartialConfig =
  p_url :: "string option"
  p_reconnect :: "ReconnectConfig option"
  p_heartbeat :: "HeartbeatConfig option"
  p_messageQueue :: "MessageQueueConfig option"

definition mergeConfig :: "WebSocketConfig \<Rightarrow> PartialConfig \<Rightarrow> WebSocketConfig" where
  "mergeConfig c p =
     \<lparr> url = (case p_url p of None \<Rightarrow> url c | Some u \<Rightarrow> u),
       reconnect = (case p_reconnect p of None \<Rightarrow> reconnect c | Some r \<Rightarrow> r),
       heartbeat = (case p_heartbeat p of None \<Rightarrow> heartbeat c | Some h \<Rightarrow> h),
       messageQueue_cfg =
         (case p_messageQueue p of None \<Rightarrow> messageQueue_cfg c | Some q \<Rightarrow> q) \<rparr>"

text \<open>
  The browser the client is created in: the address of the backend, the time, the two
  texts \<open>generateSessionId\<close> draws, and how the socket constructor and \<open>send\<close> fail.
\<close>

record browser =
  b_url :: string
  b_clock :: real
  b_now :: string
  b_random :: string
  b_ctorThrows :: "string option"
  b_sendThrows :: "ClientMessage \<Rightarrow> string option"

text \<open>
  The constructor, in a browser with storage \<open>st\<close>; \<open>iid\<close> is the instance
  identifier it draws.  The module variable \<open>activeClientInstance\<close> is only logged.
\<close>

definition newClient ::
  "PartialConfig \<Rightarrow> string \<Rightarrow> browser \<Rightarrow> (string \<rightharpoonup> string)
     \<Rightarrow> world \<times> (string \<rightharpoonup> string)" where
  "newClient p iid b st =
     (let (sid, st') = getSessionId (b_now b) (b_random b) st
      in (\<lparr> ws = None, sessionId = sid, instanceId = iid,
             config = mergeConfig (WS_CONFIG (b_url b)) p,
             connectionStatus = \<lparr> state = Idle, error = None, reconnectAttempt = None,
                                  lastConnected = None \<rparr>,
             reconnectAttempts = 0, reconnectTimer = None, isIntentionalClose = False,
             heartbeatTimer = None, heartbeatTimeoutTimer = None, messageQueue = [],
             sockets = [], timers = [], clock = b_clock b, sent = [],
             statusEvents = [], errorEvents = [], messageEvents = [],
             ctorThrows = b_ctorThrows b, sendThrows = b_sendThrows b \<rparr>,
          st'))"

section \<open>The event loop\<close>

text \<open>
  What can happen to a client: a call of its public API, an event of one of the sockets
  it created, a timer firing, or time passing.
\<close>

datatype event =
    CallConnect
  | CallDisconnect
  | CallSend ClientMessage
  | SocketOpen nat
  | SocketMessage nat "ServerMessage option"
  | SocketError nat
  | SocketClose nat
  | TimerFires nat
  | Wait real

text \<open>
  A timer that fires runs the callback it was set with; a timeout is then spent, an
  interval is due again one period later.  A cleared timer never fires.
\<close>

definition fireTimer :: "nat \<Rightarrow> world \<Rightarrow> world" where
  "fireTimer t w =
     (if t < length (timers w) \<and> pending (timers w ! t) then
        (let tm = timers w ! t;
             tm' = (if kind tm = HeartbeatInterval then tm\<lparr>due := due tm + delay tm\<rparr>
                    else tm\<lparr>pending := False\<rparr>);
             w1 = w\<lparr>clock := max (clock w) (due tm), timers := (timers w)[t := tm']\<rparr>
         in (case kind tm of
               ConnectionTimeout \<Rightarrow> connectionTimeoutFired w1
             | ReconnectTimer \<Rightarrow> connect w1
             | HeartbeatInterval \<Rightarrow> snd (heartbeatTick w1)
             | HeartbeatTimeout \<Rightarrow> heartbeatTimeoutFired w1))
      else w)"

text \<open>
  One turn of the event loop.  The listeners of a socket are bound to the client, so
  they run for every socket the client created, also one it no longer holds.  An
  exception that leaves a listener or a timer callback is reported by the browser and
  the turn ends; one that leaves \<open>sendMessage\<close> goes to the caller.
\<close>

definition step :: "event \<Rightarrow> world \<Rightarrow> world" where
  "step e w =
     (case e of
        CallConnect \<Rightarrow> connect w
      | CallDisconnect \<Rightarrow> disconnect w
      | CallSend m \<Rightarrow> snd (sendMessage m w)
      | SocketOpen s \<Rightarrow>
          (if s < length (sockets w) then
             (let w1 = snd (handleOpen (setReadyState s OPEN w))
              in (case openListener (sockets w1 ! s) of
                    None \<Rightarrow> w1
                  | Some t \<Rightarrow> clearTimer t w1))
           else w)
      | SocketMessage s d \<Rightarrow> (if s < length (sockets w) then handleMessage d w else w)
      | SocketError s \<Rightarrow> (if s < length (sockets w) then handleError w else w)
      | SocketClose s \<Rightarrow>
          (if s < length (sockets w) then handleClose (setReadyState s CLOSED w) else w)
      | TimerFires t \<Rightarrow> fireTimer t w
      | Wait d \<Rightarrow> w\<lparr>clock := clock w + max 0 d\<rparr>)"

fun run :: "event list \<Rightarrow> world \<Rightarrow> world" where
  "run [] w = w"
| "run (e # es) w = run es (step e w)"

text \<open>
  When the browser can deliver an event: a socket opens once, from connecting; frames
  arrive on a socket that is open or closing; a socket closes once; a timer fires when
  it is due, and no timer is passed over.
\<close>

definition enabled :: "event \<Rightarrow> world \<Rightarrow> bool" where
  "enabled e w =
     (case e of
        CallConnect \<Rightarrow> True
      | CallDisconnect \<Rightarrow> True
      | CallSend m \<Rightarrow> True
      | SocketOpen s \<Rightarrow> s < length (sockets w) \<and> readyStateOf w s = CONNECTING
      | SocketMessage s d \<Rightarrow>
          s < length (sockets w) \<and> (readyStateOf w s = OPEN \<or> readyStateOf w s = CLOSING)
      | SocketError s \<Rightarrow> s < length (sockets w) \<and> readyStateOf w s \<noteq> CLOSED
      | SocketClose s \<Rightarrow> s < length (sockets w) \<and> readyStateOf w s \<noteq> CLOSED
      | TimerFires t \<Rightarrow>
          t < length (timers w) \<and> pending (timers w ! t) \<and> clock w \<le> due (timers w ! t) \<and>
          list_all (\<lambda>u. due (timers w ! t) \<le> due u) (filter pending (timers w))
      | Wait d \<Rightarrow>
          0 \<le> d \<and> list_all (\<lambda>u. clock w + d \<le> due u) (filter pending (timers w)))"

fun feasible :: "event list \<Rightarrow> world \<Rightarrow> bool" where
  "feasible [] w = True"
| "feasible (e # es) w = (enabled e w \<and> feasible es (step e w))"

section \<open>The progress interpreter (lib/websocket/deploymentParser.ts)\<close>

text \<open>
  A JavaScript string is its sequence of UTF-16 code units; \<open>ascii\<close> turns a literal
  of the theory into one.
\<close>

type_synonym jsstring = "nat list"

definition ascii :: "string \<Rightarrow> jsstring" where
  "ascii s = map of_char s"

text \<open>The code units of the pictographs that the patterns contain.\<close>

definition magnifier :: jsstring where
  "magnifier = [55357, 56589]"
definition check_mark :: jsstring where
  "check_mark = [9989]"
definition package :: jsstring where
  "package = [55357, 56550]"
definition rocket :: jsstring where
  "rocket = [55357, 56960]"
definition floppy_disk :: jsstring where
  "floppy_disk = [55357, 56510]"
definition party_popper :: jsstring where
  "party_popper = [55356, 57225]"
definition tick :: jsstring where
  "tick = [10003]"

text \<open>\<open>message.includes(p)\<close>\<close>

definition js_includes :: "jsstring \<Rightarrow> jsstring \<Rightarrow> bool" where
  "js_includes m p = sublist p m"

subsection \<open>The regular expressions\<close>

text \<open>
  Character classes of ECMAScript regular expressions without the \<open>u\<close> flag: what
  \<open>.\<close> excludes, \<open>\d\<close>, \<open>\w\<close>, \<open>\s\<close>; and the case folding of the \<open>i\<close> flag,
  which for the letters of these patterns identifies exactly the two ASCII cases.
\<close>

definition lineTerminator :: "nat \<Rightarrow> bool" where
  "lineTerminator c \<longleftrightarrow> c = 10 \<or> c = 13 \<or> c = 8232 \<or> c = 8233"

definition digit :: "nat \<Rightarrow> bool" where
  "digit c \<longleftrightarrow> 48 \<le> c \<and> c \<le> 57"

definition wordChar :: "nat \<Rightarrow> bool" where
  "wordChar c \<longleftrightarrow> digit c \<or> (65 \<le> c \<and> c \<le> 90) \<or> (97 \<le> c \<and> c \<le> 122) \<or> c = 95"

definition whiteSpace :: "nat \<Rightarrow> bool" where
  "whiteSpace c \<longleftrightarrow>
     (9 \<le> c \<and> c \<le> 13) \<or> c = 32 \<or> c = 160 \<or> c = 5760 \<or> (8192 \<le> c \<and> c \<le> 8202) \<or>
     c = 8232 \<or> c = 8233 \<or> c = 8239 \<or> c = 8287 \<or> c = 12288 \<or> c = 65279"

definition lower :: "nat \<Rightarrow> nat" where
  "lower c = (if 65 \<le> c \<and> c \<le> 90 then c + 32 else c)"

text \<open>\<open>message.match(/to (.+)/)\<close>: the first capture group of the leftmost match.\<close>

fun match_to :: "jsstring \<Rightarrow> jsstring option" where
  "match_to [] = None"
| "match_to (c # cs) =
     (let g = takeWhile (\<lambda>x. \<not> lineTerminator x) (drop 3 (c # cs))
      in if prefix (ascii ''to '') (c # cs) \<and> g \<noteq> [] then Some g else match_to cs)"

text \<open>\<open>message.match(/framework.*detected/i)\<close>: whether there is a match.\<close>

fun match_framework_detected :: "jsstring \<Rightarrow> bool" where
  "match_framework_detected [] = False"
| "match_framework_detected (c # cs) =
     ((prefix (ascii ''framework'') (map lower (c # cs)) \<and>
       sublist (ascii ''detected'')
         (map lower (takeWhile (\<lambda>x. \<not> lineTerminator x) (drop 9 (c # cs))))) \<or>
      match_framework_detected cs)"

text \<open>
  The rest of a match after its literal head of length \<open>n\<close>: separators from the class
  \<open>sep\<close>, at least one, then the captured word, at least one character.
\<close>

definition separated_word :: "(nat \<Rightarrow> bool) \<Rightarrow> nat \<Rightarrow> jsstring \<Rightarrow> jsstring option" where
  "separated_word sep n s =
     (let r = drop n s; g = takeWhile wordChar (dropWhile sep r)
      in if takeWhile sep r \<noteq> [] \<and> g \<noteq> [] then Some g else None)"

text \<open>\<open>message.match(/(?:framework[:\s]+|detected\s+)(\w+)/i)\<close>\<close>

fun match_framework_name :: "jsstring \<Rightarrow> jsstring option" where
  "match_framework_name [] = None"
| "match_framework_name (c # cs) =
     (case (if prefix (ascii ''framework'') (map lower (c # cs))
            then separated_word (\<lambda>x. x = 58 \<or> whiteSpace x) 9 (c # cs) else None) of
        Some g \<Rightarrow> Some g
      | None \<Rightarrow>
          (case (if prefix (ascii ''detected'') (map lower (c # cs))
                 then separated_word whiteSpace 8 (c # cs) else None) of
             Some g \<Rightarrow> Some g
           | None \<Rightarrow> match_framework_name cs))"

text \<open>\<open>message.match(/Generating Dockerfile for (\w+)/)\<close>\<close>

fun match_dockerfile_for :: "jsstring \<Rightarrow> jsstring option" where
  "match_dockerfile_for [] = None"
| "match_dockerfile_for (c # cs) =
     (let g = takeWhile wordChar (drop 26 (c # cs))
      in if prefix (ascii ''Generating Dockerfile for '') (c # cs) \<and> g \<noteq> [] then Some g
         else match_dockerfile_for cs)"

text \<open>\<open>message.match(/(\d+)%/)\<close>\<close>

fun match_percent :: "jsstring \<Rightarrow> jsstring option" where
  "match_percent [] = None"
| "match_percent (c # cs) =
     (let g = takeWhile digit (c # cs)
      in if g \<noteq> [] \<and> prefix (ascii ''%'') (dropWhile digit (c # cs)) then Some g
         else match_percent cs)"

text \<open>
  \<open>parseInt\<close> on a string of decimal digits, and the decimal text of a natural
  number as a template literal prints it (the value is taken exactly; a double
  rounds beyond \<open>2^53\<close> and prints an exponent from \<open>10^21\<close>).
\<close>

definition parseInt :: "jsstring \<Rightarrow> nat" where
  "parseInt ds = foldl (\<lambda>n c. 10 * n + (c - 48)) 0 ds"

fun decimal :: "nat \<Rightarrow> jsstring" where
  "decimal n = (if n < 10 then [48 + n] else decimal (n div 10) @ [48 + n mod 10])"

declare decimal.simps [simp del]

subsection \<open>Stage updates\<close>

datatype DeploymentStage =
    repo_access | code_analysis | dockerfile_generation | security_scan
  | container_build | cloud_deployment | unknown

datatype StageStatus = St_in_progress | St_success | St_error

text \<open>
  \<open>StageUpdate\<close> (declared in \<open>types/deployment.ts\<close>) with the fields the parser
  sets; a field it leaves out is \<open>None\<close>.
\<close>

record StageUpdate =
  stage :: DeploymentStage
  status :: StageStatus
  details :: "jsstring list option"
  message :: "jsstring option"
  progress :: real

definition update ::
  "DeploymentStage \<Rightarrow> StageStatus \<Rightarrow> jsstring list \<Rightarrow> real \<Rightarrow> StageUpdate option" where
  "update s t d p = Some \<lparr> stage = s, status = t, details = Some d, message = None, progress = p \<rparr>"

text \<open>
  \<open>parseBackendLog\<close>: the chain of tests of the source, in its order; \<open>None\<close> is
  \<open>null\<close>.
\<close>

definition parseBackendLog :: "jsstring \<Rightarrow> StageUpdate option" where
  "parseBackendLog m =
    (if js_includes m (magnifier @ ascii '' Running pre-flight checks'') \<or>
        js_includes m (ascii ''pre-flight'') then
       update repo_access St_in_progress [ascii ''Verifying GCP environment...''] 1
     else if js_includes m (check_mark @ ascii '' All pre-flight checks passed'') then
       update repo_access St_success
         [ascii ''Project access verified'', ascii ''Artifact Registry ready'',
          ascii ''Cloud Build API enabled'', ascii ''Cloud Run API enabled'',
          ascii ''Storage bucket configured''] 3
     else if js_includes m (check_mark @ ascii '' Project access verified'') then
       update repo_access St_in_progress [ascii ''Project access verified '' @ tick] 1
     else if js_includes m (check_mark @ ascii '' Artifact Registry'') \<or>
             js_includes m (package @ ascii '' Creating Artifact Registry'') then
       update repo_access St_in_progress [ascii ''Setting up Artifact Registry...''] 2
     else if js_includes m (ascii ''[GitHubService] Cloning'') \<or>
             js_includes m (ascii ''Cloning repository'') \<or>
             js_includes m (rocket @ ascii '' Starting repository clone'') then
       update repo_access St_in_progress [ascii ''Cloning repository from GitHub...''] 5
     else if (js_includes m (ascii ''Cloning'') \<and> js_includes m (ascii ''to'')) \<or>
             js_includes m (ascii ''Repository cloned'') then
       update repo_access St_success
         [ascii ''Cloned from GitHub'',
          ascii ''Location: '' @
            (case match_to m of Some g \<Rightarrow> g | None \<Rightarrow> ascii ''local cache'')] 15
     else if js_includes m (ascii ''[AnalysisService] Analyzing project'') \<or>
             js_includes m (ascii ''Starting code analysis'') then
       update code_analysis St_in_progress [ascii ''Detecting framework and dependencies...''] 20
     else if js_includes m (ascii ''Analyzing project at'') then
       update code_analysis St_in_progress [ascii ''Scanning project structure...''] 25
     else if js_includes m (ascii ''Detected framework'') \<or> match_framework_detected m then
       update code_analysis St_in_progress
         [ascii ''Framework detected: '' @
            (case match_framework_name m of Some g \<Rightarrow> g | None \<Rightarrow> ascii ''unknown''),
          ascii ''Analyzing dependencies...''] 30
     else if js_includes m (ascii ''Analysis complete'') \<or>
             js_includes m (ascii ''analysis_result'') then
       update code_analysis St_success
         [ascii ''Framework and runtime identified'', ascii ''Dependencies analyzed'',
          ascii ''Configuration validated''] 35
     else if js_includes m (ascii ''[AnalysisService] Generating Dockerfile'') \<or>
             js_includes m (ascii ''Generating Dockerfile'') then
       update dockerfile_generation St_in_progress
         [ascii ''Framework: '' @
            (case match_dockerfile_for m of Some g \<Rightarrow> g | None \<Rightarrow> ascii ''detected framework''),
          ascii ''Creating optimized Docker configuration...''] 40
     else if js_includes m (floppy_disk @ ascii '' Saving Dockerfile'') then
       update dockerfile_generation St_in_progress [ascii ''Saving Dockerfile to project...''] 48
     else if js_includes m (ascii ''[DockerService] Dockerfile saved'') \<or>
             js_includes m (ascii ''Dockerfile created'') \<or>
             js_includes m (check_mark @ ascii '' Dockerfile saved'') then
       update dockerfile_generation St_success
         [ascii ''Multi-stage build configured'', ascii ''Security best practices applied'',
          ascii ''Layer caching optimized'', ascii ''Dockerfile saved to project''] 50
     else if js_includes m (ascii ''Security scan'') \<or>
             js_includes m (ascii ''Scanning for vulnerabilities'') then
       update security_scan St_in_progress [ascii ''Scanning for vulnerabilities...''] 55
     else if js_includes m (ascii ''Security scan complete'') \<or>
             js_includes m (ascii ''No vulnerabilities'') then
       update security_scan St_success [ascii ''Security checks passed''] 60
     else if js_includes m (ascii ''Building container image'') \<or>
             js_includes m (ascii ''[DockerService] Building'') then
       update container_build St_in_progress [ascii ''Building Docker image...''] 65
     else if js_includes m (ascii ''Building'') \<and> js_includes m (ascii ''%'') then
       (let buildProgress = (case match_percent m of Some g \<Rightarrow> parseInt g | None \<Rightarrow> 0)
        in update container_build St_in_progress
             [ascii ''Build progress: '' @ decimal buildProgress @ ascii ''%'']
             (65 + real buildProgress * 0.15))
     else if js_includes m (ascii ''Container image built'') \<or>
             js_includes m (ascii ''Build complete'') then
       update container_build St_success [ascii ''Image built successfully''] 80
     else if js_includes m (ascii ''Deploying to Cloud Run'') \<or>
             js_includes m (ascii ''[GCloudService] Deploying'') then
       update cloud_deployment St_in_progress [ascii ''Launching service on Cloud Run...''] 85
     else if js_includes m (ascii ''Deployment progress'') then
       update cloud_deployment St_in_progress [ascii ''Configuring service...''] 90
     else if js_includes m (magnifier @ ascii '' Verifying deployment health'') \<or>
             js_includes m (ascii ''Waiting for service to be ready'') then
       update cloud_deployment St_in_progress [ascii ''Verifying service health...''] 95
     else if js_includes m (ascii ''Deployment successful'') \<or>
             js_includes m (ascii ''deployed successfully'') \<or>
             js_includes m (ascii ''Service URL:'') \<or>
             js_includes m (party_popper @ ascii '' Deployment complete'') then
       update cloud_deployment St_success [ascii ''Service deployed and verified successfully!''] 100
     else if js_includes m (ascii ''Error:'') \<or> js_includes m (ascii ''Failed:'') \<or>
             js_includes m (ascii ''[ERROR]'') then
       Some \<lparr> stage = unknown, status = St_error, details = None, message = Some m,
              progress = 0 \<rparr>
     else None)"

text \<open>
  The tests of the chain taken apart: the condition of its last branch, and the
  disjunction of the conditions of all the branches before it.
\<close>

definition errorMarker :: "jsstring \<Rightarrow> bool" where
  "errorMarker m \<longleftrightarrow>
     js_includes m (ascii ''Error:'') \<or> js_includes m (ascii ''Failed:'') \<or>
     js_includes m (ascii ''[ERROR]'')"

definition milestone :: "jsstring \<Rightarrow> bool" where
  "milestone m \<longleftrightarrow>
     js_includes m (magnifier @ ascii '' Running pre-flight checks'') \<or>
     js_includes m (ascii ''pre-flight'') \<or>
     js_includes m (check_mark @ ascii '' All pre-flight checks passed'') \<or>
     js_includes m (check_mark @ ascii '' Project access verified'') \<or>
     js_includes m (check_mark @ ascii '' Artifact Registry'') \<or>
     js_includes m (package @ ascii '' Creating Artifact Registry'') \<or>
     js_includes m (ascii ''[GitHubService] Cloning'') \<or>
     js_includes m (ascii ''Cloning repository'') \<or>
     js_includes m (rocket @ ascii '' Starting repository clone'') \<or>
     (js_includes m (ascii ''Cloning'') \<and> js_includes m (ascii ''to'')) \<or>
     js_includes m (ascii ''Repository cloned'') \<or>
     js_includes m (ascii ''[AnalysisService] Analyzing project'') \<or>
     js_includes m (ascii ''Starting code analysis'') \<or>
     js_includes m (ascii ''Analyzing project at'') \<or>
     js_includes m (ascii ''Detected framework'') \<or> match_framework_detected m \<or>
     js_includes m (ascii ''Analysis complete'') \<or>
     js_includes m (ascii ''analysis_result'') \<or>
     js_includes m (ascii ''[AnalysisService] Generating Dockerfile'') \<or>
     js_includes m (ascii ''Generating Dockerfile'') \<or>
     js_includes m (floppy_disk @ ascii '' Saving Dockerfile'') \<or>
     js_includes m (ascii ''[DockerService] Dockerfile saved'') \<or>
     js_includes m (ascii ''Dockerfile created'') \<or>
     js_includes m (check_mark @ ascii '' Dockerfile saved'') \<or>
     js_includes m (ascii ''Security scan'') \<or>
     js_includes m (ascii ''Scanning for vulnerabilities'') \<or>
     js_includes m (ascii ''Security scan complete'') \<or>
     js_includes m (ascii ''No vulnerabilities'') \<or>
     js_includes m (ascii ''Building container image'') \<or>
     js_includes m (ascii ''[DockerService] Building'') \<or>
     (js_includes m (ascii ''Building'') \<and> js_includes m (ascii ''%'')) \<or>
     js_includes m (ascii ''Container image built'') \<or>
     js_includes m (ascii ''Build complete'') \<or>
     js_includes m (ascii ''Deploying to Cloud Run'') \<or>
     js_includes m (ascii ''[GCloudService] Deploying'') \<or>
     js_includes m (ascii ''Deployment progress'') \<or>
     js_includes m (magnifier @ ascii '' Verifying deployment health'') \<or>
     js_includes m (ascii ''Waiting for service to be ready'') \<or>
     js_includes m (ascii ''Deployment successful'') \<or>
     js_includes m (ascii ''deployed successfully'') \<or>
     js_includes m (ascii ''Service URL:'') \<or>
     js_includes m (party_popper @ ascii '' Deployment complete'')"

section \<open>Reference definitions for the statements\<close>

text \<open>
  The delay of the \<open>n\<close>-th reconnect attempt as the specification words it:
  the smaller of \<open>maxDelay\<close> and \<open>initialDelay\<close> times the multiplier to the power
  \<open>n - 1\<close>.
\<close>

definition spec_delay :: "ReconnectConfig \<Rightarrow> nat \<Rightarrow> real" where
  "spec_delay rc n = min (maxDelay rc) (initialDelay rc * backoffMultiplier rc ^ (n - 1))"

text \<open>A client built with no overrides in a browser whose storage is empty.\<close>

definition noOverrides :: PartialConfig where
  "noOverrides = \<lparr> p_url = None, p_reconnect = None, p_heartbeat = None, p_messageQueue = None \<rparr>"

definition plainBrowser :: browser where
  "plainBrowser =
     \<lparr> b_url = ''ws://localhost:8000/ws/chat'', b_clock = 0, b_now = ''1700000000000'',
       b_random = ''k3j9x2m1q'', b_ctorThrows = None, b_sendThrows = (\<lambda>m. None) \<rparr>"

definition defaultClient :: world where
  "defaultClient = fst (newClient noOverrides ''client_1'' plainBrowser Map.empty)"

text \<open>
  The client with the two heartbeat timing fields of its configuration replaced.
\<close>

definition setHeartbeatTiming :: "real \<Rightarrow> real \<Rightarrow> world \<Rightarrow> world" where
  "setHeartbeatTiming i t w =
     w\<lparr>config := (config w)\<lparr>heartbeat := (heartbeat (config w))\<lparr>interval := i, timeout := t\<rparr>\<rparr>\<rparr>"

text \<open>The at most \<open>n\<close> most recent entries of a sequence, in their order.\<close>

definition lastN :: "nat \<Rightarrow> 'a list \<Rightarrow> 'a list" where
  "lastN n xs = drop (length xs - n) xs"

text \<open>
  \<open>queueMessage\<close> on the queue alone, for a capacity \<open>n\<close>.
\<close>

definition enqueue :: "nat \<Rightarrow> 'a \<Rightarrow> 'a list \<Rightarrow> 'a list" where
  "enqueue n m q = (if n \<le> length q then tl q else q) @ [m]"

text \<open>The default client after \<open>connect()\<close>, and after its socket has opened.\<close>

definition connectingClient :: world where
  "connectingClient = run [CallConnect] defaultClient"

definition connectedClient :: world where
  "connectedClient = run [CallConnect, SocketOpen 0] defaultClient"

text \<open>A client whose configuration disables queueing, and one whose queue holds two messages.\<close>

definition queueDisabled :: "world \<Rightarrow> world" where
  "queueDisabled w =
     w\<lparr>config := (config w)\<lparr>messageQueue_cfg := \<lparr> mq_enabled = False, maxSize = 50 \<rparr>\<rparr>\<rparr>"

definition smallQueue :: "world \<Rightarrow> world" where
  "smallQueue w =
     w\<lparr>config := (config w)\<lparr>messageQueue_cfg := \<lparr> mq_enabled = True, maxSize = 2 \<rparr>\<rparr>\<rparr>"

text \<open>
  The number of reconnect attempts announced to the connection-change handlers (status
  \<open>reconnecting\<close> with an attempt number) since the last status \<open>connected\<close>.
\<close>

definition attemptsSinceOpen :: "ConnectionStatus list \<Rightarrow> nat" where
  "attemptsSinceOpen evs =
     fold (\<lambda>cs n. if state cs = Connected then 0
                   else if state cs = Reconnecting \<and> reconnectAttempt cs \<noteq> None then n + 1
                   else n) evs 0"

text \<open>
  What a run keeps of the client \<open>c\<close> it started from: the two identities, and the
  counter agreeing with the announced attempts.
\<close>

definition tracked :: "world \<Rightarrow> world \<Rightarrow> bool" where
  "tracked c w \<longleftrightarrow>
     sessionId w = sessionId c \<and> instanceId w = instanceId c \<and>
     reconnectAttempts w = attemptsSinceOpen (statusEvents w)"

text \<open>
  The default client after \<open>connect()\<close>, a close of the socket, and the reconnect
  timer: it holds a second, connecting socket.
\<close>

definition reconnectedClient :: world where
  "reconnectedClient = run [CallConnect, SocketClose 0, TimerFires 1] defaultClient"

text \<open>
  A connection attempt that times out, the close of its socket, and \<open>disconnect()\<close>
  half a second later.
\<close>

definition staleReconnectTrace :: "event list" where
  "staleReconnectTrace =
     [CallConnect, TimerFires 0, SocketError 0, SocketClose 0, Wait 500, CallDisconnect]"

text \<open>
  A connection on which the pong to the first ping arrives 16 seconds after it, one
  second after the second ping, and the pong to the second ping one second later.
\<close>

definition latePongTrace :: "event list" where
  "latePongTrace =
     [CallConnect, SocketOpen 0, TimerFires 1, TimerFires 1, Wait 1000, SocketMessage 0 (Some Pong),
      Wait 1000, SocketMessage 0 (Some Pong)]"

text \<open>How many reconnect timers were ever set.\<close>

definition reconnectsScheduled :: "world \<Rightarrow> nat" where
  "reconnectsScheduled w = length (filter (\<lambda>t. kind t = ReconnectTimer) (timers w))"


text \<open>
  What a run without an open keeps of a client \<open>v\<close>: the configuration, the counter,
  and the number of reconnect timers.
\<close>

definition exhausted :: "world \<Rightarrow> world \<Rightarrow> bool" where
  "exhausted v w \<longleftrightarrow>
     config w = config v \<and> reconnectAttempts w = reconnectAttempts v \<and>
     reconnectsScheduled w = reconnectsScheduled v"




section \<open>Reconnection backoff\<close>

lemma calculateBackoffDelay_spec:
  assumes "0 < reconnectAttempts w"
  shows "calculateBackoffDelay w = spec_delay (reconnect (config w)) (reconnectAttempts w)"
proof -
  from assms obtain k where k: "reconnectAttempts w = Suc k"
    by (cases "reconnectAttempts w") auto
  have "int (Suc k) - 1 = int k" by simp
  then show ?thesis
    by (simp add: calculateBackoffDelay_def spec_delay_def Let_def k min.commute)
qed

lemma handleReconnect_retry:
  assumes "rc_enabled (reconnect (config w))" "\<not> isIntentionalClose w"
    and "reconnectAttempts w < maxAttempts (reconnect (config w))"
  shows "handleReconnect w =
     (let n = reconnectAttempts w + 1; d = spec_delay (reconnect (config w)) n;
          cs = \<lparr> state = Reconnecting, error = None, reconnectAttempt = Some n,
                 lastConnected = lastConnected (connectionStatus w) \<rparr>
      in w\<lparr>reconnectAttempts := n,
           timers := timers w @
             [\<lparr>kind = ReconnectTimer, delay = d, due = clock w + d, pending = True\<rparr>],
           reconnectTimer := Some (length (timers w)),
           connectionStatus := cs, statusEvents := statusEvents w @ [cs]\<rparr>)"
proof -
  have "calculateBackoffDelay (w\<lparr>reconnectAttempts := reconnectAttempts w + 1\<rparr>)
          = spec_delay (reconnect (config w)) (reconnectAttempts w + 1)"
    using calculateBackoffDelay_spec[of "w\<lparr>reconnectAttempts := reconnectAttempts w + 1\<rparr>"]
    by simp
  then show ?thesis using assms
    by (simp add: handleReconnect_def Let_def setTimer_def updateConnectionStatus_def)
qed




lemma shipped_delay_5: "spec_delay (reconnect (WS_CONFIG u)) 5 = 5062.5"
  by (simp add: spec_delay_def WS_CONFIG_def power_divide)




text \<open>After the last attempt: what a run without an open cannot change.\<close>

lemma filter_kind_update:
  "kind x = kind (ts ! t) \<Longrightarrow> t < length ts \<Longrightarrow>
     filter (\<lambda>u. kind u = k) (ts[t := x]) = filter (\<lambda>u. kind u = k) ts \<or>
     length (filter (\<lambda>u. kind u = k) (ts[t := x])) = length (filter (\<lambda>u. kind u = k) ts)"
proof (induction ts arbitrary: t)
  case Nil
  then show ?case by simp
next
  case (Cons a ts)
  then show ?case by (cases t) auto
qed

lemma length_filter_kind_update:
  assumes "kind x = kind (ts ! t)" "t < length ts"
  shows "length (filter (\<lambda>u. kind u = k) (ts[t := x])) = length (filter (\<lambda>u. kind u = k) ts)"
  using filter_kind_update[OF assms, of k] by auto

lemma exhausted_updates [simp]:
  "exhausted v (w\<lparr>sockets := b\<rparr>) = exhausted v w"
  "exhausted v (w\<lparr>clock := d\<rparr>) = exhausted v w"
  "exhausted v (w\<lparr>sent := e\<rparr>) = exhausted v w"
  "exhausted v (w\<lparr>messageQueue := f\<rparr>) = exhausted v w"
  "exhausted v (w\<lparr>reconnectTimer := g\<rparr>) = exhausted v w"
  "exhausted v (w\<lparr>heartbeatTimer := h\<rparr>) = exhausted v w"
  "exhausted v (w\<lparr>heartbeatTimeoutTimer := i\<rparr>) = exhausted v w"
  "exhausted v (w\<lparr>isIntentionalClose := j\<rparr>) = exhausted v w"
  "exhausted v (w\<lparr>errorEvents := k\<rparr>) = exhausted v w"
  "exhausted v (w\<lparr>messageEvents := l\<rparr>) = exhausted v w"
  "exhausted v (w\<lparr>statusEvents := n\<rparr>) = exhausted v w"
  "exhausted v (w\<lparr>connectionStatus := p\<rparr>) = exhausted v w"
  "exhausted v (w\<lparr>ws := m\<rparr>) = exhausted v w"
  by (simp_all add: exhausted_def reconnectsScheduled_def)

lemma exhausted_clearTimer [simp]: "exhausted v (clearTimer t w) = exhausted v w"
  by (simp add: clearTimer_def exhausted_def reconnectsScheduled_def length_filter_kind_update)

lemma exhausted_new_timer [simp]:
  "kind x \<noteq> ReconnectTimer \<Longrightarrow> exhausted v (w\<lparr>timers := timers w @ [x]\<rparr>) = exhausted v w"
  by (simp add: exhausted_def reconnectsScheduled_def)

lemma exhausted_setReadyState [simp]: "exhausted v (setReadyState s r w) = exhausted v w"
  by (simp add: setReadyState_def)

lemma exhausted_socketClose [simp]: "exhausted v (socketClose s w) = exhausted v w"
  by (simp add: socketClose_def)

lemma exhausted_wsClose [simp]: "exhausted v (wsClose w) = exhausted v w"
  by (simp add: wsClose_def split: option.split)

lemma exhausted_emitError [simp]: "exhausted v (emitError e w) = exhausted v w"
  by (simp add: emitError_def)

lemma exhausted_status [simp]: "exhausted v (updateConnectionStatus s e a w) = exhausted v w"
  by (simp add: updateConnectionStatus_def Let_def)

lemma exhausted_queueMessage [simp]: "exhausted v (queueMessage m w) = exhausted v w"
  by (simp add: queueMessage_def Let_def)

lemma exhausted_sendMessage [simp]: "exhausted v (snd (sendMessage m w)) = exhausted v w"
  by (simp add: sendMessage_def split: option.split)

lemma exhausted_stopHeartbeat [simp]: "exhausted v (stopHeartbeat w) = exhausted v w"
  by (simp add: stopHeartbeat_def Let_def split: option.split)

lemma exhausted_heartbeatTick [simp]: "exhausted v (snd (heartbeatTick w)) = exhausted v w"
proof -
  obtain r w' where s: "sendMessage (Ping (clock w)) w = (r, w')"
    by (cases "sendMessage (Ping (clock w)) w")
  then have "exhausted v w' = exhausted v w"
    using exhausted_sendMessage[of v "Ping (clock w)" w] by simp
  then show ?thesis
    using s by (cases r) (simp_all add: heartbeatTick_def setTimer_def)
qed

lemma exhausted_handlePong [simp]: "exhausted v (handlePong w) = exhausted v w"
  by (simp add: handlePong_def split: option.split)




lemma exhausted_cleanup [simp]: "exhausted v (cleanup w) = exhausted v w"
  by (simp add: cleanup_def Let_def split: option.split)

lemma exhausted_disconnect [simp]: "exhausted v (disconnect w) = exhausted v w"
  by (simp add: disconnect_def)

lemma exhausted_handleMessage [simp]: "exhausted v (handleMessage d w) = exhausted v w"
  by (simp add: handleMessage_def split: option.split ServerMessage.split)

lemma exhausted_handleError [simp]: "exhausted v (handleError w) = exhausted v w"
  by (simp add: handleError_def)


lemma exhausted_fired [simp]:
  "t < length (timers w) \<Longrightarrow>
   exhausted v (w\<lparr>clock := c, timers := (timers w)[t := (timers w ! t)\<lparr>pending := False\<rparr>]\<rparr>)
     = exhausted v w"
  "t < length (timers w) \<Longrightarrow>
   exhausted v (w\<lparr>clock := c, timers := (timers w)[t := (timers w ! t)\<lparr>due := d\<rparr>]\<rparr>)
     = exhausted v w"
  by (simp_all add: exhausted_def reconnectsScheduled_def length_filter_kind_update)




lemma defaultClient_eq:
  "defaultClient =
     \<lparr> ws = None, sessionId = ''session_1700000000000_k3j9x2m1q'', instanceId = ''client_1'',
       config = WS_CONFIG ''ws://localhost:8000/ws/chat'',
       connectionStatus = \<lparr> state = Idle, error = None, reconnectAttempt = None,
                            lastConnected = None \<rparr>,
       reconnectAttempts = 0, reconnectTimer = None, isIntentionalClose = False,
       heartbeatTimer = None, heartbeatTimeoutTimer = None, messageQueue = [],
       sockets = [], timers = [], clock = 0, sent = [],
       statusEvents = [], errorEvents = [], messageEvents = [],
       ctorThrows = None, sendThrows = (\<lambda>m. None) \<rparr>"
  by (simp add: defaultClient_def newClient_def getSessionId_def generateSessionId_def
      mergeConfig_def noOverrides_def plainBrowser_def WS_CONFIG_def)

section \<open>The heartbeat timing fields of the configuration\<close>

lemma hbt_fields [simp]:
  "ws (setHeartbeatTiming i t w) = ws w"
  "sockets (setHeartbeatTiming i t w) = sockets w"
  "timers (setHeartbeatTiming i t w) = timers w"
  "clock (setHeartbeatTiming i t w) = clock w"
  "sent (setHeartbeatTiming i t w) = sent w"
  "messageQueue (setHeartbeatTiming i t w) = messageQueue w"
  "reconnectAttempts (setHeartbeatTiming i t w) = reconnectAttempts w"
  "reconnectTimer (setHeartbeatTiming i t w) = reconnectTimer w"
  "heartbeatTimer (setHeartbeatTiming i t w) = heartbeatTimer w"
  "heartbeatTimeoutTimer (setHeartbeatTiming i t w) = heartbeatTimeoutTimer w"
  "isIntentionalClose (setHeartbeatTiming i t w) = isIntentionalClose w"
  "connectionStatus (setHeartbeatTiming i t w) = connectionStatus w"
  "statusEvents (setHeartbeatTiming i t w) = statusEvents w"
  "errorEvents (setHeartbeatTiming i t w) = errorEvents w"
  "messageEvents (setHeartbeatTiming i t w) = messageEvents w"
  "ctorThrows (setHeartbeatTiming i t w) = ctorThrows w"
  "sendThrows (setHeartbeatTiming i t w) = sendThrows w"
  "sessionId (setHeartbeatTiming i t w) = sessionId w"
  "instanceId (setHeartbeatTiming i t w) = instanceId w"
  "reconnect (config (setHeartbeatTiming i t w)) = reconnect (config w)"
  "messageQueue_cfg (config (setHeartbeatTiming i t w)) = messageQueue_cfg (config w)"
  "hb_enabled (heartbeat (config (setHeartbeatTiming i t w))) = hb_enabled (heartbeat (config w))"
  by (simp_all add: setHeartbeatTiming_def)

lemma hbt_updates [simp]:
  "(setHeartbeatTiming i t w)\<lparr>timers := a\<rparr> = setHeartbeatTiming i t (w\<lparr>timers := a\<rparr>)"
  "(setHeartbeatTiming i t w)\<lparr>sockets := b\<rparr> = setHeartbeatTiming i t (w\<lparr>sockets := b\<rparr>)"
  "(setHeartbeatTiming i t w)\<lparr>clock := c\<rparr> = setHeartbeatTiming i t (w\<lparr>clock := c\<rparr>)"
  "(setHeartbeatTiming i t w)\<lparr>sent := d\<rparr> = setHeartbeatTiming i t (w\<lparr>sent := d\<rparr>)"
  "(setHeartbeatTiming i t w)\<lparr>messageQueue := e\<rparr> = setHeartbeatTiming i t (w\<lparr>messageQueue := e\<rparr>)"
  "(setHeartbeatTiming i t w)\<lparr>reconnectAttempts := f\<rparr> = setHeartbeatTiming i t (w\<lparr>reconnectAttempts := f\<rparr>)"
  "(setHeartbeatTiming i t w)\<lparr>reconnectTimer := g\<rparr> = setHeartbeatTiming i t (w\<lparr>reconnectTimer := g\<rparr>)"
  "(setHeartbeatTiming i t w)\<lparr>heartbeatTimer := h\<rparr> = setHeartbeatTiming i t (w\<lparr>heartbeatTimer := h\<rparr>)"
  "(setHeartbeatTiming i t w)\<lparr>heartbeatTimeoutTimer := j\<rparr> = setHeartbeatTiming i t (w\<lparr>heartbeatTimeoutTimer := j\<rparr>)"
  "(setHeartbeatTiming i t w)\<lparr>isIntentionalClose := k\<rparr> = setHeartbeatTiming i t (w\<lparr>isIntentionalClose := k\<rparr>)"
  "(setHeartbeatTiming i t w)\<lparr>connectionStatus := l\<rparr> = setHeartbeatTiming i t (w\<lparr>connectionStatus := l\<rparr>)"
  "(setHeartbeatTiming i t w)\<lparr>statusEvents := m\<rparr> = setHeartbeatTiming i t (w\<lparr>statusEvents := m\<rparr>)"
  "(setHeartbeatTiming i t w)\<lparr>errorEvents := n\<rparr> = setHeartbeatTiming i t (w\<lparr>errorEvents := n\<rparr>)"
  "(setHeartbeatTiming i t w)\<lparr>messageEvents := p\<rparr> = setHeartbeatTiming i t (w\<lparr>messageEvents := p\<rparr>)"
  "(setHeartbeatTiming i t w)\<lparr>ws := q\<rparr> = setHeartbeatTiming i t (w\<lparr>ws := q\<rparr>)"
  by (simp_all add: setHeartbeatTiming_def)

lemma hbt_setTimer [simp]:
  "setTimer k d (setHeartbeatTiming i t w) = apsnd (setHeartbeatTiming i t) (setTimer k d w)"
  by (simp add: setTimer_def)

lemma hbt_clearTimer [simp]:
  "clearTimer x (setHeartbeatTiming i t w) = setHeartbeatTiming i t (clearTimer x w)"
  by (simp add: clearTimer_def)

lemma hbt_readyStateOf [simp]: "readyStateOf (setHeartbeatTiming i t w) s = readyStateOf w s"
  by (simp add: readyStateOf_def)

lemma hbt_setReadyState [simp]:
  "setReadyState s r (setHeartbeatTiming i t w) = setHeartbeatTiming i t (setReadyState s r w)"
  by (simp add: setReadyState_def)

lemma hbt_socketClose [simp]:
  "socketClose s (setHeartbeatTiming i t w) = setHeartbeatTiming i t (socketClose s w)"
  by (simp add: socketClose_def)

lemma hbt_wsClose [simp]: "wsClose (setHeartbeatTiming i t w) = setHeartbeatTiming i t (wsClose w)"
  by (simp add: wsClose_def split: option.split)

lemma hbt_updateConnectionStatus [simp]:
  "updateConnectionStatus s e a (setHeartbeatTiming i t w) =
     setHeartbeatTiming i t (updateConnectionStatus s e a w)"
  by (simp add: updateConnectionStatus_def Let_def)

lemma hbt_emitError [simp]:
  "emitError e (setHeartbeatTiming i t w) = setHeartbeatTiming i t (emitError e w)"
  by (simp add: emitError_def)

lemma hbt_openSocket [simp]: "openSocket (setHeartbeatTiming i t w) = openSocket w"
  by (simp add: openSocket_def split: option.split)

lemma hbt_isConnected [simp]: "isConnected (setHeartbeatTiming i t w) = isConnected w"
  by (simp add: isConnected_def)

lemma hbt_queueMessage [simp]:
  "queueMessage m (setHeartbeatTiming i t w) = setHeartbeatTiming i t (queueMessage m w)"
  by (simp add: queueMessage_def Let_def)

lemma hbt_sendMessage [simp]:
  "sendMessage m (setHeartbeatTiming i t w) = apsnd (setHeartbeatTiming i t) (sendMessage m w)"
  by (simp add: sendMessage_def split: option.split)

lemma hbt_sendAll [simp]:
  "sendAll ms (setHeartbeatTiming i t w) = apsnd (setHeartbeatTiming i t) (sendAll ms w)"
  by (induction ms arbitrary: w) (auto split: prod.split sum.split)

lemma hbt_flushMessageQueue [simp]:
  "flushMessageQueue (setHeartbeatTiming i t w) = apsnd (setHeartbeatTiming i t) (flushMessageQueue w)"
  by (simp add: flushMessageQueue_def)

lemma hbt_stopHeartbeat [simp]:
  "stopHeartbeat (setHeartbeatTiming i t w) = setHeartbeatTiming i t (stopHeartbeat w)"
  by (simp add: stopHeartbeat_def Let_def split: option.split)

lemma hbt_startHeartbeat [simp]:
  "startHeartbeat (setHeartbeatTiming i t w) = setHeartbeatTiming i t (startHeartbeat w)"
  by (simp add: startHeartbeat_def Let_def split: prod.split)

lemma hbt_heartbeatTick [simp]:
  "heartbeatTick (setHeartbeatTiming i t w) = apsnd (setHeartbeatTiming i t) (heartbeatTick w)"
  by (simp add: heartbeatTick_def Let_def split: prod.split sum.split)

lemma hbt_handlePong [simp]:
  "handlePong (setHeartbeatTiming i t w) = setHeartbeatTiming i t (handlePong w)"
  by (simp add: handlePong_def split: option.split)

lemma hbt_calculateBackoffDelay [simp]:
  "calculateBackoffDelay (setHeartbeatTiming i t w) = calculateBackoffDelay w"
  by (simp add: calculateBackoffDelay_def)

lemma hbt_handleReconnect [simp]:
  "handleReconnect (setHeartbeatTiming i t w) = setHeartbeatTiming i t (handleReconnect w)"
  by (simp add: handleReconnect_def Let_def split: prod.split)

lemma hbt_connectionTimeoutFired [simp]:
  "connectionTimeoutFired (setHeartbeatTiming i t w) = setHeartbeatTiming i t (connectionTimeoutFired w)"
  by (simp add: connectionTimeoutFired_def)

lemma hbt_connect [simp]:
  "connect (setHeartbeatTiming i t w) = setHeartbeatTiming i t (connect w)"
  by (simp add: connect_def Let_def split: prod.split option.split)

lemma hbt_cleanup [simp]:
  "cleanup (setHeartbeatTiming i t w) = setHeartbeatTiming i t (cleanup w)"
  by (simp add: cleanup_def Let_def split: option.split)

lemma hbt_disconnect [simp]:
  "disconnect (setHeartbeatTiming i t w) = setHeartbeatTiming i t (disconnect w)"
  by (simp add: disconnect_def)

lemma hbt_handleOpen [simp]:
  "handleOpen (setHeartbeatTiming i t w) = apsnd (setHeartbeatTiming i t) (handleOpen w)"
  by (simp add: handleOpen_def Let_def apsnd_def map_prod_def split: prod.split sum.split)

lemma hbt_handleMessage [simp]:
  "handleMessage d (setHeartbeatTiming i t w) = setHeartbeatTiming i t (handleMessage d w)"
  by (simp add: handleMessage_def split: option.split ServerMessage.split)

lemma hbt_handleError [simp]:
  "handleError (setHeartbeatTiming i t w) = setHeartbeatTiming i t (handleError w)"
  by (simp add: handleError_def)

lemma hbt_handleClose [simp]:
  "handleClose (setHeartbeatTiming i t w) = setHeartbeatTiming i t (handleClose w)"
  by (simp add: handleClose_def Let_def)

lemma hbt_heartbeatTimeoutFired [simp]:
  "heartbeatTimeoutFired (setHeartbeatTiming i t w) = setHeartbeatTiming i t (heartbeatTimeoutFired w)"
  by (simp add: heartbeatTimeoutFired_def)

lemma hbt_fireTimer [simp]:
  "fireTimer x (setHeartbeatTiming i t w) = setHeartbeatTiming i t (fireTimer x w)"
  by (simp add: fireTimer_def Let_def split: TimerKind.split)

lemma hbt_step: "step e (setHeartbeatTiming i t w) = setHeartbeatTiming i t (step e w)"
  by (cases e) (simp_all add: step_def Let_def split: option.split)

lemma hbt_run: "run es (setHeartbeatTiming i t w) = setHeartbeatTiming i t (run es w)"
  by (induction es arbitrary: w) (simp_all add: hbt_step)

lemma hbt_enabled: "enabled e (setHeartbeatTiming i t w) = enabled e w"
  by (cases e) (simp_all add: enabled_def)

section \<open>Evaluating the model on concrete clients\<close>

lemmas model_defs =
  step_def connect_def disconnect_def cleanup_def handleOpen_def handleClose_def handleError_def
  handleMessage_def handlePong_def handleReconnect_def calculateBackoffDelay_def
  connectionTimeoutFired_def heartbeatTimeoutFired_def heartbeatTick_def startHeartbeat_def
  stopHeartbeat_def flushMessageQueue_def sendMessage_def queueMessage_def isConnected_def
  openSocket_def emitError_def updateConnectionStatus_def wsClose_def socketClose_def
  setReadyState_def readyStateOf_def clearTimer_def setTimer_def fireTimer_def

lemma connectingClient_eq:
  "connectingClient =
     defaultClient\<lparr> ws := Some 0,
       connectionStatus := \<lparr> state = Connecting, error = None, reconnectAttempt = None, lastConnected = None \<rparr>,
       sockets := [\<lparr>readyState = CONNECTING, openListener = Some 0\<rparr>],
       timers := [\<lparr>kind = ConnectionTimeout, delay = 10000, due = 10000, pending = True\<rparr>],
       statusEvents := [\<lparr> state = Connecting, error = None, reconnectAttempt = None, lastConnected = None \<rparr>] \<rparr>"
  by (simp add: connectingClient_def defaultClient_eq model_defs Let_def)

lemma connectedClient_eq:
  "connectedClient =
     defaultClient\<lparr> ws := Some 0,
       connectionStatus := \<lparr> state = Connected, error = None, reconnectAttempt = Some 0, lastConnected = Some 0 \<rparr>,
       heartbeatTimer := Some 1,
       sockets := [\<lparr>readyState = OPEN, openListener = Some 0\<rparr>],
       timers := [\<lparr>kind = ConnectionTimeout, delay = 10000, due = 10000, pending = False\<rparr>,
                  \<lparr>kind = HeartbeatInterval, delay = 15000, due = 15000, pending = True\<rparr>],
       sent := [(0, Init ''session_1700000000000_k3j9x2m1q'' ''client_1'' False 0)],
       statusEvents := [\<lparr> state = Connecting, error = None, reconnectAttempt = None, lastConnected = None \<rparr>,
                        \<lparr> state = Connected, error = None, reconnectAttempt = Some 0, lastConnected = Some 0 \<rparr>] \<rparr>"
  by (simp add: connectedClient_def defaultClient_eq model_defs Let_def WS_CONFIG_def)

section \<open>Sending\<close>

text \<open>
  Claim C2, as stated, fails: with queueing disabled and no open channel,
  \<open>sendMessage\<close> throws to its caller, and nothing reaches the error or
  connection-change handlers.
\<close>

theorem sendMessage_throws_counterexample:
  "sendMessage (Chat ''deploy my app'') (queueDisabled defaultClient) =
     (Inl ''WebSocket not connected and message queue disabled'', queueDisabled defaultClient)"
  by (simp add: sendMessage_def openSocket_def queueDisabled_def defaultClient_eq)

text \<open>
  Claim C2, amended.  When the channel is open or queueing is enabled (\<open>w\<close>),
  \<open>sendMessage\<close> returns a boolean and throws nothing; on an open channel a failure
  of the underlying send is passed to the error handlers and \<open>false\<close> is returned.
  When the channel is not open and queueing is disabled (\<open>v\<close>), it throws
  \<open>Error('WebSocket not connected and message queue disabled')\<close> to the caller
  and changes nothing.
\<close>

theorem sendMessage_propagation:
  assumes "isConnected w \<or> mq_enabled (messageQueue_cfg (config w))"
    and "\<not> isConnected v" "\<not> mq_enabled (messageQueue_cfg (config v))"
  shows "(\<exists>b. fst (sendMessage m w) = Inr b) \<and>
         (isConnected w \<longrightarrow>
            (case sendThrows w m of
               None \<Rightarrow> fst (sendMessage m w) = Inr True \<and> errorEvents (snd (sendMessage m w)) = errorEvents w
             | Some e \<Rightarrow> sendMessage m w = (Inr False, w\<lparr>errorEvents := errorEvents w @ [e]\<rparr>))) \<and>
         sendMessage m v = (Inl ''WebSocket not connected and message queue disabled'', v)"
  using assms
  by (auto simp: sendMessage_def isConnected_def emitError_def split: option.splits)

theorem sendMessage_propagation_witness:
  "isConnected connectedClient \<and> \<not> isConnected (queueDisabled defaultClient) \<and>
   fst (sendMessage (Chat ''hello'') connectedClient) = Inr True \<and>
   fst (sendMessage (Chat ''hello'') (queueDisabled defaultClient)) =
     Inl ''WebSocket not connected and message queue disabled''"
proof -
  have a: "isConnected connectedClient \<or> mq_enabled (messageQueue_cfg (config connectedClient))"
    by (simp add: connectedClient_eq isConnected_def openSocket_def readyStateOf_def)
  have b: "\<not> isConnected (queueDisabled defaultClient)"
    "\<not> mq_enabled (messageQueue_cfg (config (queueDisabled defaultClient)))"
    by (simp_all add: queueDisabled_def defaultClient_eq isConnected_def openSocket_def)
  have c: "isConnected connectedClient" "sendThrows connectedClient (Chat ''hello'') = None"
    by (simp_all add: connectedClient_eq defaultClient_eq isConnected_def openSocket_def readyStateOf_def)
  show ?thesis
    using sendMessage_propagation[OF a b, of "Chat ''hello''"] b c by simp
qed

section \<open>Transport errors\<close>

text \<open>
  Claim C8, as stated, fails: an \<open>error\<close> event on the socket of a connected
  client leaves the status \<open>connected\<close>, schedules no timer and does not touch the
  reconnect counter.
\<close>

theorem handleError_counterexample:
  "state (connectionStatus (step (SocketError 0) connectedClient)) = Connected \<and>
   timers (step (SocketError 0) connectedClient) = timers connectedClient \<and>
   reconnectAttempts (step (SocketError 0) connectedClient) = 0"
  by (simp add: step_def handleError_def emitError_def connectedClient_eq defaultClient_eq)

lemma stopHeartbeat_frame:
  "config (stopHeartbeat w) = config w" "isIntentionalClose (stopHeartbeat w) = isIntentionalClose w"
  "reconnectAttempts (stopHeartbeat w) = reconnectAttempts w"
  "connectionStatus (stopHeartbeat w) = connectionStatus w"
  "reconnectsScheduled (stopHeartbeat w) = reconnectsScheduled w"
  "errorEvents (stopHeartbeat w) = errorEvents w"
  by (simp_all add: stopHeartbeat_def clearTimer_def Let_def reconnectsScheduled_def
      length_filter_kind_update split: option.split)

text \<open>
  Claim C8, amended.  On an \<open>error\<close> event of one of its sockets the client calls the
  error handlers with \<open>Error('WebSocket connection error')\<close> and changes nothing
  else: status, reconnect counter and timers stay as they are.  The reconnect path is
  entered by the \<open>close\<close> event of the socket: if reconnection is enabled, the close
  is not intentional and the counter is below the maximum, the status is then
  \<open>reconnecting\<close>, the counter is one higher and one reconnect timer has been set.
\<close>

theorem transport_error_event:
  assumes "s < length (sockets w)"
  shows "step (SocketError s) w = w\<lparr>errorEvents := errorEvents w @ [''WebSocket connection error'']\<rparr> \<and>
         (rc_enabled (reconnect (config w)) \<and> \<not> isIntentionalClose w \<and>
          reconnectAttempts w < maxAttempts (reconnect (config w)) \<longrightarrow>
            state (connectionStatus (step (SocketClose s) (step (SocketError s) w))) = Reconnecting \<and>
            reconnectAttempts (step (SocketClose s) (step (SocketError s) w)) = reconnectAttempts w + 1 \<and>
            reconnectsScheduled (step (SocketClose s) (step (SocketError s) w))
              = reconnectsScheduled w + 1)"
proof -
  let ?w' = "w\<lparr>errorEvents := errorEvents w @ [''WebSocket connection error'']\<rparr>"
  have e: "step (SocketError s) w = ?w'"
    using assms by (simp add: step_def handleError_def emitError_def)
  have c: "state (connectionStatus (step (SocketClose s) ?w')) = Reconnecting \<and>
           reconnectAttempts (step (SocketClose s) ?w') = reconnectAttempts w + 1 \<and>
           reconnectsScheduled (step (SocketClose s) ?w') = reconnectsScheduled w + 1"
    if h: "rc_enabled (reconnect (config w))" "\<not> isIntentionalClose w"
      "reconnectAttempts w < maxAttempts (reconnect (config w))"
  proof -
    let ?c = "stopHeartbeat (setReadyState s CLOSED ?w')"
    let ?x = "updateConnectionStatus Reconnecting None None ?c"
    have f: "config ?c = config w" "isIntentionalClose ?c = isIntentionalClose w"
      "reconnectAttempts ?c = reconnectAttempts w" "reconnectsScheduled ?c = reconnectsScheduled w"
      by (simp_all add: stopHeartbeat_frame) (simp_all add: setReadyState_def reconnectsScheduled_def)
    then have x: "rc_enabled (reconnect (config ?x))" "\<not> isIntentionalClose ?x"
      "reconnectAttempts ?x < maxAttempts (reconnect (config ?x))"
      "reconnectAttempts ?x = reconnectAttempts w" "timers ?x = timers ?c"
      using h by (simp_all add: updateConnectionStatus_def Let_def)
    have "step (SocketClose s) ?w' = handleReconnect ?x"
      using assms h f(2) by (simp add: step_def handleClose_def Let_def)
    then show ?thesis
      using handleReconnect_retry[OF x(1-3)] x(4,5) f(4)
      by (simp add: Let_def reconnectsScheduled_def)
  qed
  show ?thesis using e c by simp
qed

theorem transport_error_event_witness:
  "0 < length (sockets connectedClient) \<and>
   rc_enabled (reconnect (config connectedClient)) \<and> \<not> isIntentionalClose connectedClient \<and>
   reconnectAttempts connectedClient < maxAttempts (reconnect (config connectedClient)) \<and>
   errorEvents (step (SocketError 0) connectedClient) = [''WebSocket connection error''] \<and>
   connectionStatus (step (SocketError 0) connectedClient) = connectionStatus connectedClient \<and>
   state (connectionStatus (step (SocketClose 0) (step (SocketError 0) connectedClient)))
     = Reconnecting \<and>
   reconnectAttempts (step (SocketClose 0) (step (SocketError 0) connectedClient)) = 1"
proof -
  have a: "0 < length (sockets connectedClient)"
    by (simp add: connectedClient_eq)
  have b: "errorEvents connectedClient = []" "reconnectAttempts connectedClient = 0"
    "rc_enabled (reconnect (config connectedClient))" "\<not> isIntentionalClose connectedClient"
    "reconnectAttempts connectedClient < maxAttempts (reconnect (config connectedClient))"
    by (simp_all add: connectedClient_eq defaultClient_eq WS_CONFIG_def)
  note t = transport_error_event[OF a]
  have 1: "step (SocketError 0) connectedClient =
             connectedClient\<lparr>errorEvents := errorEvents connectedClient @
               [''WebSocket connection error'']\<rparr>"
    using t by blast
  have 2: "state (connectionStatus (step (SocketClose 0) (step (SocketError 0) connectedClient)))
             = Reconnecting"
    "reconnectAttempts (step (SocketClose 0) (step (SocketError 0) connectedClient))
       = reconnectAttempts connectedClient + 1"
    using t b(3-5) by blast+
  have 3: "errorEvents (step (SocketError 0) connectedClient) = [''WebSocket connection error'']"
    "connectionStatus (step (SocketError 0) connectedClient) = connectionStatus connectedClient"
    by (simp_all add: 1 b)
  have 4: "reconnectAttempts (step (SocketClose 0) (step (SocketError 0) connectedClient)) = 1"
    using 2(2) b(2) by simp
  show ?thesis
    using a b(3-5) 2(1) 3 4 by blast
qed

section \<open>The message queue\<close>

lemma openSocket_frame:
  "ws w' = ws w \<Longrightarrow> sockets w' = sockets w \<Longrightarrow> openSocket w' = openSocket w"
  by (simp add: openSocket_def readyStateOf_def split: option.split)

lemma lastN_Cons: "n \<le> length ys \<Longrightarrow> lastN n (x # ys) = lastN n ys"
  by (simp add: lastN_def Suc_diff_le)

lemma lastN_short: "length ys \<le> n \<Longrightarrow> lastN n ys = ys"
  by (simp add: lastN_def)

lemma length_lastN: "length (lastN n xs) = min n (length xs)"
  by (simp add: lastN_def)

lemma fold_enqueue:
  assumes "0 < n" "length q \<le> n"
  shows "fold (enqueue n) ms q = lastN n (q @ ms)"
  using assms(2)
proof (induction ms arbitrary: q)
  case Nil
  then show ?case by (simp add: lastN_short)
next
  case (Cons m ms)
  show ?case
  proof (cases "n \<le> length q")
    case True
    with Cons.prems have len: "length q = n" by simp
    with assms(1) obtain x q' where q: "q = x # q'" by (cases q) auto
    have e: "enqueue n m (x # q') = q' @ [m]" using True q by (simp add: enqueue_def)
    have "fold (enqueue n) ms (q' @ [m]) = lastN n ((q' @ [m]) @ ms)"
      using len q by (intro Cons.IH) simp
    moreover have "lastN n (x # q' @ m # ms) = lastN n (q' @ m # ms)"
      using len q by (intro lastN_Cons) simp
    ultimately show ?thesis by (simp add: e q)
  next
    case False
    then have e: "enqueue n m q = q @ [m]" by (simp add: enqueue_def)
    have "fold (enqueue n) ms (q @ [m]) = lastN n ((q @ [m]) @ ms)"
      using False by (intro Cons.IH) simp
    then show ?thesis by (simp add: e)
  qed
qed

lemma sends_while_down:
  assumes "\<not> isConnected w" "mq_enabled (messageQueue_cfg (config w))"
  shows "run (map CallSend ms) w =
           w\<lparr>messageQueue := fold (enqueue (maxSize (messageQueue_cfg (config w)))) ms (messageQueue w)\<rparr>"
  using assms
proof (induction ms arbitrary: w)
  case Nil
  then show ?case by simp
next
  case (Cons m ms)
  let ?w' = "step (CallSend m) w"
  have st: "?w' = w\<lparr>messageQueue := enqueue (maxSize (messageQueue_cfg (config w))) m (messageQueue w)\<rparr>"
    using Cons.prems
    by (simp add: step_def sendMessage_def isConnected_def queueMessage_def Let_def enqueue_def)
  have "openSocket ?w' = openSocket w"
    unfolding st by (rule openSocket_frame) simp_all
  then have "\<not> isConnected ?w'" "mq_enabled (messageQueue_cfg (config ?w'))"
    using Cons.prems by (simp_all add: isConnected_def) (simp add: st)
  from Cons.IH[OF this] show ?case by (simp add: st)
qed

lemma sendAll_open:
  assumes "openSocket w = Some s"
  shows "sendAll ms w =
     (Inr (), w\<lparr>sent := sent w @ map (Pair s) (filter (\<lambda>m. sendThrows w m = None) ms),
               errorEvents := errorEvents w @ List.map_filter (sendThrows w) ms\<rparr>)"
  using assms
proof (induction ms arbitrary: w)
  case Nil
  then show ?case by (simp add: List.map_filter_simps)
next
  case (Cons m ms)
  show ?case
  proof (cases "sendThrows w m")
    case None
    let ?w' = "w\<lparr>sent := sent w @ [(s, m)]\<rparr>"
    have "openSocket ?w' = openSocket w" by (rule openSocket_frame) simp_all
    then have "openSocket ?w' = Some s" using Cons.prems by simp
    from Cons.IH[OF this] show ?thesis
      using None Cons.prems by (simp add: sendMessage_def List.map_filter_simps)
  next
    case (Some e)
    let ?w' = "w\<lparr>errorEvents := errorEvents w @ [e]\<rparr>"
    have "openSocket ?w' = openSocket w" by (rule openSocket_frame) simp_all
    then have "openSocket ?w' = Some s" using Cons.prems by simp
    from Cons.IH[OF this] show ?thesis
      using Some Cons.prems by (simp add: sendMessage_def emitError_def List.map_filter_simps)
  qed
qed

text \<open>What \<open>handleOpen\<close> does on the open socket \<open>s\<close>.\<close>

lemma handleOpen_open:
  assumes "openSocket w = Some s"
  shows "fst (handleOpen w) = Inr () \<and>
         sent (snd (handleOpen w)) = sent w @ map (Pair s)
           (filter (\<lambda>m. sendThrows w m = None)
              (Init (sessionId w) (instanceId w) (0 < reconnectAttempts w) (clock w) # messageQueue w)) \<and>
         messageQueue (snd (handleOpen w)) = [] \<and>
         reconnectAttempts (snd (handleOpen w)) = 0"
proof -
  let ?i = "Init (sessionId w) (instanceId w) (0 < reconnectAttempts w) (clock w)"
  let ?w1 = "updateConnectionStatus Connected None (Some (if 0 < reconnectAttempts w then 1 else 0))
                 (w\<lparr>reconnectAttempts := 0\<rparr>)"
  have o1: "openSocket ?w1 = Some s"
    using assms openSocket_frame[of ?w1 w] by (simp add: updateConnectionStatus_def Let_def)
  let ?w2 = "case sendThrows w ?i of None \<Rightarrow> ?w1\<lparr>sent := sent ?w1 @ [(s, ?i)]\<rparr>
                   | Some e \<Rightarrow> emitError e ?w1"
  define w2 where "w2 = ?w2"
  have s2: "sendMessage ?i ?w1 = (Inr (sendThrows w ?i = None), w2)"
    using o1 unfolding w2_def
    by (cases "sendThrows w ?i") (simp_all add: sendMessage_def updateConnectionStatus_def Let_def)
  let ?w3 = "if hb_enabled (heartbeat (config w2)) then startHeartbeat w2 else w2"
  have f2: "ws w2 = ws w" "sockets w2 = sockets w" "messageQueue w2 = messageQueue w"
    "sendThrows w2 = sendThrows w" "reconnectAttempts w2 = 0"
    "sent w2 = sent w @ map (Pair s) (filter (\<lambda>m. sendThrows w m = None) [?i])"
    by (simp_all add: w2_def updateConnectionStatus_def emitError_def Let_def split: option.split)
  have f3: "ws ?w3 = ws w" "sockets ?w3 = sockets w" "messageQueue ?w3 = messageQueue w"
    "sendThrows ?w3 = sendThrows w" "reconnectAttempts ?w3 = 0" "sent ?w3 = sent w2"
    using f2
    by (simp_all add: startHeartbeat_def stopHeartbeat_def setTimer_def clearTimer_def Let_def
        split: option.split)
  have o3: "openSocket ?w3 = Some s"
    using assms openSocket_frame[of ?w3 w] f3 by simp
  have i1: "Init (sessionId ?w1) (instanceId ?w1) (0 < reconnectAttempts w) (clock ?w1) = ?i"
    by (simp add: updateConnectionStatus_def Let_def)
  have h: "handleOpen w = (if length (messageQueue ?w3) > 0 then flushMessageQueue ?w3 else (Inr (), ?w3))"
    unfolding handleOpen_def Let_def i1 s2 prod.case sum.case ..
  show ?thesis
  proof (cases "messageQueue w = []")
    case True
    then show ?thesis using h f3 f2 by simp
  next
    case False
    let ?w4 = "?w3\<lparr>messageQueue := []\<rparr>"
    have o4: "openSocket ?w4 = Some s"
      using o3 openSocket_frame[of ?w4 ?w3] by simp
    have "handleOpen w = sendAll (messageQueue w) ?w4"
      using h False f3 by (simp add: flushMessageQueue_def)
    then show ?thesis
      using sendAll_open[OF o4, of "messageQueue w"] f3 f2 by simp
  qed
qed


lemma step_SocketOpen_sent:
  assumes "ws w = Some s" "s < length (sockets w)"
  shows "sent (step (SocketOpen s) w) = sent w @ map (Pair s)
           (filter (\<lambda>m. sendThrows w m = None)
              (Init (sessionId w) (instanceId w) (0 < reconnectAttempts w) (clock w) # messageQueue w)) \<and>
         messageQueue (step (SocketOpen s) w) = [] \<and>
         reconnectAttempts (step (SocketOpen s) w) = 0"
proof -
  let ?v = "setReadyState s OPEN w"
  have o: "openSocket ?v = Some s"
    using assms by (simp add: openSocket_def setReadyState_def readyStateOf_def)
  have v: "sent ?v = sent w" "messageQueue ?v = messageQueue w" "sendThrows ?v = sendThrows w"
    "sessionId ?v = sessionId w" "instanceId ?v = instanceId w" "clock ?v = clock w"
    "reconnectAttempts ?v = reconnectAttempts w"
    by (simp_all add: setReadyState_def)
  have "sent (clearTimer t x) = sent x" "messageQueue (clearTimer t x) = messageQueue x"
    "reconnectAttempts (clearTimer t x) = reconnectAttempts x" for t x
    by (simp_all add: clearTimer_def)
  then show ?thesis
    using handleOpen_open[OF o] assms(2) v
    by (simp add: step_def Let_def split: option.split)
qed

text \<open>
  Claim C3.  Let the client hold the connecting socket \<open>s\<close>, with queueing enabled, a
  capacity \<open>maxSize\<close> of at least one and a queue within it.  After any sequence
  \<open>ms\<close> of \<open>sendMessage\<close> calls the queue is the \<open>maxSize\<close> most recent of the
  queued messages, in call order (the oldest went first), and nothing was transmitted.
  When the socket then opens, the initialization message is transmitted, then the
  retained messages in that order, save those on which the send itself throws; the
  queue is empty.
\<close>

theorem queue_bounded_fifo:
  assumes "ws w = Some s" "readyStateOf w s = CONNECTING"
    and "mq_enabled (messageQueue_cfg (config w))"
    and "0 < maxSize (messageQueue_cfg (config w))"
    and "length (messageQueue w) \<le> maxSize (messageQueue_cfg (config w))"
  shows "messageQueue (run (map CallSend ms) w) =
           lastN (maxSize (messageQueue_cfg (config w))) (messageQueue w @ ms) \<and>
         length (messageQueue (run (map CallSend ms) w)) \<le> maxSize (messageQueue_cfg (config w)) \<and>
         sent (run (map CallSend ms) w) = sent w \<and>
         sent (step (SocketOpen s) (run (map CallSend ms) w)) =
           sent w @ map (Pair s)
             (filter (\<lambda>m. sendThrows w m = None)
                (Init (sessionId w) (instanceId w) (0 < reconnectAttempts w) (clock w) #
                 lastN (maxSize (messageQueue_cfg (config w))) (messageQueue w @ ms))) \<and>
         messageQueue (step (SocketOpen s) (run (map CallSend ms) w)) = []"
proof -
  let ?n = "maxSize (messageQueue_cfg (config w))"
  let ?w' = "run (map CallSend ms) w"
  have down: "\<not> isConnected w"
    using assms(1,2) by (simp add: isConnected_def openSocket_def)
  have len: "s < length (sockets w)"
    using assms(2) by (auto simp: readyStateOf_def split: if_splits)
  have w': "?w' = w\<lparr>messageQueue := lastN ?n (messageQueue w @ ms)\<rparr>"
    using sends_while_down[OF down assms(3), of ms] fold_enqueue[OF assms(4,5), of ms] by simp
  have a: "ws ?w' = Some s" "s < length (sockets ?w')"
    using assms(1) len by (simp_all add: w')
  show ?thesis
    using step_SocketOpen_sent[OF a] by (simp add: w' length_lastN)
qed

theorem queue_bounded_fifo_witness:
  "ws (smallQueue connectingClient) = Some 0 \<and>
   readyStateOf (smallQueue connectingClient) 0 = CONNECTING \<and>
   messageQueue (run (map CallSend [Chat ''a'', Chat ''b'', Chat ''c'']) (smallQueue connectingClient))
     = [Chat ''b'', Chat ''c''] \<and>
   sent (step (SocketOpen 0)
          (run (map CallSend [Chat ''a'', Chat ''b'', Chat ''c'']) (smallQueue connectingClient)))
     = [(0, Init ''session_1700000000000_k3j9x2m1q'' ''client_1'' False 0),
        (0, Chat ''b''), (0, Chat ''c'')]"
proof -
  let ?w = "smallQueue connectingClient"
  have a: "ws ?w = Some 0" "readyStateOf ?w 0 = CONNECTING"
    "mq_enabled (messageQueue_cfg (config ?w))" "0 < maxSize (messageQueue_cfg (config ?w))"
    "length (messageQueue ?w) \<le> maxSize (messageQueue_cfg (config ?w))"
    by (simp_all add: smallQueue_def connectingClient_eq defaultClient_eq readyStateOf_def)
  have b: "messageQueue ?w = []" "sent ?w = []" "maxSize (messageQueue_cfg (config ?w)) = 2"
    "sendThrows ?w = (\<lambda>m. None)" "sessionId ?w = ''session_1700000000000_k3j9x2m1q''"
    "instanceId ?w = ''client_1''" "reconnectAttempts ?w = 0" "clock ?w = 0"
    by (simp_all add: smallQueue_def connectingClient_eq defaultClient_eq)
  show ?thesis
    using queue_bounded_fifo[OF a, of "[Chat ''a'', Chat ''b'', Chat ''c'']"] a(1,2)
    by (simp add: b lastN_def)
qed

section \<open>Heartbeat timing\<close>

text \<open>
  Claim C10.  Replacing the fields \<open>heartbeat.interval\<close> and \<open>heartbeat.timeout\<close>
  of the configuration commutes with every run of the client: the fields change
  nothing but themselves.  \<open>startHeartbeat\<close> sets its interval to 15000, the
  interval callback of a connected client sets the pong timeout to 30000, and two
  clients constructed with heartbeat overrides that differ only in the two fields
  differ only in the two fields.
\<close>

theorem heartbeat_timing_inert:
  "run es (setHeartbeatTiming i t w) = setHeartbeatTiming i t (run es w) \<and>
   timers (startHeartbeat w) = timers (stopHeartbeat w) @
     [\<lparr> kind = HeartbeatInterval, delay = 15000, due = clock w + 15000, pending = True \<rparr>] \<and>
   (isConnected w \<longrightarrow>
      timers (snd (heartbeatTick w)) = timers w @
        [\<lparr> kind = HeartbeatTimeout, delay = 30000, due = clock w + 30000, pending = True \<rparr>]) \<and>
   fst (newClient (p\<lparr>p_heartbeat := Some \<lparr> hb_enabled = b, interval = i, timeout = t \<rparr>\<rparr>) iid br st)
     = setHeartbeatTiming i t
         (fst (newClient (p\<lparr>p_heartbeat := Some \<lparr> hb_enabled = b, interval = i', timeout = t' \<rparr>\<rparr>)
                iid br st))"
proof -
  have c: "clock (stopHeartbeat w) = clock w"
    by (simp add: stopHeartbeat_def clearTimer_def Let_def split: option.split)
  have a: "timers (startHeartbeat w) = timers (stopHeartbeat w) @
     [\<lparr> kind = HeartbeatInterval, delay = 15000, due = clock w + 15000, pending = True \<rparr>]"
    by (simp add: startHeartbeat_def setTimer_def c)
  have b: "timers (snd (heartbeatTick w)) = timers w @
        [\<lparr> kind = HeartbeatTimeout, delay = 30000, due = clock w + 30000, pending = True \<rparr>]"
    if "isConnected w"
    using that
    by (auto simp: heartbeatTick_def sendMessage_def isConnected_def setTimer_def emitError_def
        split: option.split)
  have d: "fst (newClient (p\<lparr>p_heartbeat := Some \<lparr> hb_enabled = b, interval = i, timeout = t \<rparr>\<rparr>) iid br st)
     = setHeartbeatTiming i t
         (fst (newClient (p\<lparr>p_heartbeat := Some \<lparr> hb_enabled = b, interval = i', timeout = t' \<rparr>\<rparr>)
                iid br st))"
    by (simp add: newClient_def mergeConfig_def setHeartbeatTiming_def split: prod.split)
  show ?thesis
    using a b d hbt_run[of es i t w] by blast
qed

theorem heartbeat_timing_inert_witness:
  "isConnected connectedClient \<and>
   interval (heartbeat (config connectedClient)) = 30000 \<and>
   timeout (heartbeat (config connectedClient)) = 5000 \<and>
   timers (snd (heartbeatTick connectedClient)) = timers connectedClient @
        [\<lparr> kind = HeartbeatTimeout, delay = 30000, due = 30000, pending = True \<rparr>]"
proof -
  have a: "isConnected connectedClient" "clock connectedClient = 0"
    "interval (heartbeat (config connectedClient)) = 30000"
    "timeout (heartbeat (config connectedClient)) = 5000"
    by (simp_all add: connectedClient_eq defaultClient_eq isConnected_def openSocket_def
        readyStateOf_def WS_CONFIG_def)
  show ?thesis
    using heartbeat_timing_inert[where w = connectedClient and es = "[]" and i = 0 and t = 0] a
    by simp
qed

section \<open>Session identity\<close>

lemma tracked_updates [simp]:
  "tracked c (w\<lparr>timers := a\<rparr>) = tracked c w"
  "tracked c (w\<lparr>sockets := b\<rparr>) = tracked c w"
  "tracked c (w\<lparr>clock := d\<rparr>) = tracked c w"
  "tracked c (w\<lparr>sent := e\<rparr>) = tracked c w"
  "tracked c (w\<lparr>messageQueue := f\<rparr>) = tracked c w"
  "tracked c (w\<lparr>reconnectTimer := g\<rparr>) = tracked c w"
  "tracked c (w\<lparr>heartbeatTimer := h\<rparr>) = tracked c w"
  "tracked c (w\<lparr>heartbeatTimeoutTimer := i\<rparr>) = tracked c w"
  "tracked c (w\<lparr>isIntentionalClose := j\<rparr>) = tracked c w"
  "tracked c (w\<lparr>errorEvents := k\<rparr>) = tracked c w"
  "tracked c (w\<lparr>messageEvents := l\<rparr>) = tracked c w"
  "tracked c (w\<lparr>ws := m\<rparr>) = tracked c w"
  by (simp_all add: tracked_def)

lemma tracked_clearTimer [simp]: "tracked c (clearTimer t w) = tracked c w"
  by (simp add: clearTimer_def)

lemma tracked_setTimer [simp]: "tracked c (snd (setTimer k d w)) = tracked c w"
  by (simp add: setTimer_def)

lemma tracked_setReadyState [simp]: "tracked c (setReadyState s r w) = tracked c w"
  by (simp add: setReadyState_def)

lemma tracked_socketClose [simp]: "tracked c (socketClose s w) = tracked c w"
  by (simp add: socketClose_def)

lemma tracked_wsClose [simp]: "tracked c (wsClose w) = tracked c w"
  by (simp add: wsClose_def split: option.split)

lemma tracked_emitError [simp]: "tracked c (emitError e w) = tracked c w"
  by (simp add: emitError_def)

lemma tracked_status:
  "s \<noteq> Connected \<Longrightarrow> s = Reconnecting \<longrightarrow> a = None \<Longrightarrow>
     tracked c (updateConnectionStatus s e a w) = tracked c w"
  by (auto simp: updateConnectionStatus_def tracked_def attemptsSinceOpen_def Let_def)

lemma tracked_queueMessage [simp]: "tracked c (queueMessage m w) = tracked c w"
  by (simp add: queueMessage_def Let_def)

lemma tracked_sendMessage [simp]: "tracked c (snd (sendMessage m w)) = tracked c w"
  by (simp add: sendMessage_def split: option.split)

lemma tracked_sendAll [simp]: "tracked c (snd (sendAll ms w)) = tracked c w"
proof (induction ms arbitrary: w)
  case Nil
  show ?case by simp
next
  case (Cons m ms)
  obtain r w' where s: "sendMessage m w = (r, w')" by (cases "sendMessage m w")
  then have "tracked c w' = tracked c w" using tracked_sendMessage[of c m w] by simp
  then show ?case using s Cons.IH[of w'] by (cases r) simp_all
qed

lemma tracked_flushMessageQueue [simp]: "tracked c (snd (flushMessageQueue w)) = tracked c w"
  by (simp add: flushMessageQueue_def)

lemma tracked_stopHeartbeat [simp]: "tracked c (stopHeartbeat w) = tracked c w"
  by (simp add: stopHeartbeat_def Let_def split: option.split)

lemma tracked_startHeartbeat [simp]: "tracked c (startHeartbeat w) = tracked c w"
  by (simp add: startHeartbeat_def setTimer_def)

lemma tracked_heartbeatTick [simp]: "tracked c (snd (heartbeatTick w)) = tracked c w"
proof -
  obtain r w' where s: "sendMessage (Ping (clock w)) w = (r, w')"
    by (cases "sendMessage (Ping (clock w)) w")
  then have "tracked c w' = tracked c w" using tracked_sendMessage[of c "Ping (clock w)" w] by simp
  then show ?thesis using s by (cases r) (simp_all add: heartbeatTick_def setTimer_def)
qed

lemma tracked_handlePong [simp]: "tracked c (handlePong w) = tracked c w"
  by (simp add: handlePong_def split: option.split)

lemma tracked_handleReconnect: "tracked c w \<Longrightarrow> tracked c (handleReconnect w)"
  by (auto simp: handleReconnect_def tracked_status setTimer_def Let_def)
     (simp add: updateConnectionStatus_def tracked_def attemptsSinceOpen_def Let_def)

lemma tracked_connectionTimeoutFired: "tracked c w \<Longrightarrow> tracked c (connectionTimeoutFired w)"
  by (simp add: connectionTimeoutFired_def tracked_handleReconnect)

lemma tracked_connect: "tracked c w \<Longrightarrow> tracked c (connect w)"
  by (auto simp: connect_def Let_def setTimer_def tracked_status
      intro!: tracked_handleReconnect split: option.split)

lemma tracked_cleanup [simp]: "tracked c (cleanup w) = tracked c w"
  by (simp add: cleanup_def Let_def split: option.split)

lemma tracked_disconnect: "tracked c w \<Longrightarrow> tracked c (disconnect w)"
  by (simp add: disconnect_def tracked_status)

lemma tracked_handleOpen: "tracked c w \<Longrightarrow> tracked c (snd (handleOpen w))"
proof -
  assume t: "tracked c w"
  let ?w1 = "updateConnectionStatus Connected None (Some (if 0 < reconnectAttempts w then 1 else 0))
                 (w\<lparr>reconnectAttempts := 0\<rparr>)"
  let ?i = "Init (sessionId ?w1) (instanceId ?w1) (0 < reconnectAttempts w) (clock ?w1)"
  have t1: "tracked c ?w1"
    using t by (simp add: updateConnectionStatus_def tracked_def attemptsSinceOpen_def Let_def)
  obtain r w2 where s: "sendMessage ?i ?w1 = (r, w2)" by (cases "sendMessage ?i ?w1")
  then have t2: "tracked c w2" using tracked_sendMessage[of c ?i ?w1] t1 by simp
  show ?thesis
    unfolding handleOpen_def Let_def s using t2 by (cases r) simp_all
qed

lemma tracked_handleMessage [simp]: "tracked c (handleMessage d w) = tracked c w"
  by (simp add: handleMessage_def split: option.split ServerMessage.split)

lemma tracked_handleError [simp]: "tracked c (handleError w) = tracked c w"
  by (simp add: handleError_def)

lemma tracked_handleClose: "tracked c w \<Longrightarrow> tracked c (handleClose w)"
  by (simp add: handleClose_def Let_def tracked_status tracked_handleReconnect)

lemma tracked_fireTimer: "tracked c w \<Longrightarrow> tracked c (fireTimer t w)"
  by (simp add: fireTimer_def Let_def heartbeatTimeoutFired_def tracked_connectionTimeoutFired
      tracked_connect split: TimerKind.split)

lemma tracked_step: "tracked c w \<Longrightarrow> tracked c (step e w)"
  by (cases e)
     (simp_all add: step_def Let_def tracked_connect tracked_disconnect tracked_handleOpen
        tracked_handleClose tracked_fireTimer split: option.split)

lemma tracked_run: "tracked c w \<Longrightarrow> tracked c (run es w)"
  by (induction es arbitrary: w) (simp_all add: tracked_step)

lemma tracked_newClient: "tracked (fst (newClient p iid b st)) (fst (newClient p iid b st))"
  by (simp add: newClient_def tracked_def attemptsSinceOpen_def split: prod.split)

lemma getSessionId_existing:
  "st SESSION_ID_KEY = Some v \<Longrightarrow> v \<noteq> [] \<Longrightarrow> getSessionId now rnd st = (v, st)"
  by (simp add: getSessionId_def)

lemma getSessionId_fresh:
  "st SESSION_ID_KEY = None \<or> st SESSION_ID_KEY = Some [] \<Longrightarrow>
     getSessionId now rnd st =
       (generateSessionId now rnd, st(SESSION_ID_KEY \<mapsto> generateSessionId now rnd))"
  by (auto simp: getSessionId_def)

lemma getSessionId_persisted:
  "snd (getSessionId now rnd st) SESSION_ID_KEY = Some (fst (getSessionId now rnd st)) \<and>
   fst (getSessionId now rnd st) \<noteq> []"
  by (auto simp: getSessionId_def generateSessionId_def split: option.split)

lemma sessionId_newClient:
  "sessionId (fst (newClient p iid b st)) = fst (getSessionId (b_now b) (b_random b) st) \<and>
   instanceId (fst (newClient p iid b st)) = iid \<and>
   snd (newClient p iid b st) = snd (getSessionId (b_now b) (b_random b) st)"
  by (simp add: newClient_def split: prod.split)

text \<open>
  Claim C7.  Let \<open>c\<close> be the client constructed over the storage \<open>st\<close>, \<open>st'\<close> the
  storage afterwards, and \<open>w\<close> the client after any run of events, holding the socket
  \<open>s\<close>.  If the storage held a (non-empty) identity, \<open>c\<close> has it and the storage is
  unchanged; a fresh one is generated and stored only if it held none.  Either way the
  storage now holds the identity of \<open>c\<close>, and a later \<open>getSessionId\<close> returns it
  again.  The run does not change it, and when \<open>s\<close> opens, the initialization
  message handed to the socket carries it, with \<open>is_reconnect\<close> true exactly
  when at least one reconnect attempt was announced since the last \<open>connected\<close>.
\<close>

theorem session_identity_stable:
  fixes p iid b st es
  defines "c \<equiv> fst (newClient p iid b st)"
    and "st' \<equiv> snd (newClient p iid b st)"
  defines "w \<equiv> run es c"
  assumes "ws w = Some s" "s < length (sockets w)"
  shows "(\<forall>v. st SESSION_ID_KEY = Some v \<and> v \<noteq> [] \<longrightarrow> sessionId c = v \<and> st' = st) \<and>
         (st SESSION_ID_KEY = None \<or> st SESSION_ID_KEY = Some [] \<longrightarrow>
            sessionId c = generateSessionId (b_now b) (b_random b) \<and>
            st' = st(SESSION_ID_KEY \<mapsto> sessionId c)) \<and>
         st' SESSION_ID_KEY = Some (sessionId c) \<and>
         getSessionId now' rnd' st' = (sessionId c, st') \<and>
         sessionId w = sessionId c \<and>
         sent (step (SocketOpen s) w) = sent w @ map (Pair s)
           (filter (\<lambda>m. sendThrows w m = None)
              (Init (sessionId c) iid (0 < attemptsSinceOpen (statusEvents w)) (clock w)
               # messageQueue w))"
proof -
  let ?g = "getSessionId (b_now b) (b_random b) st"
  have c: "sessionId c = fst ?g" "instanceId c = iid" "st' = snd ?g"
    using sessionId_newClient[of p iid b st] by (simp_all add: c_def st'_def)
  have 1: "\<forall>v. st SESSION_ID_KEY = Some v \<and> v \<noteq> [] \<longrightarrow> sessionId c = v \<and> st' = st"
    by (simp add: c getSessionId_existing)
  have 2: "st SESSION_ID_KEY = None \<or> st SESSION_ID_KEY = Some [] \<longrightarrow>
            sessionId c = generateSessionId (b_now b) (b_random b) \<and>
            st' = st(SESSION_ID_KEY \<mapsto> sessionId c)"
    using getSessionId_fresh[of st "b_now b" "b_random b"] by (auto simp: c)
  have 3: "st' SESSION_ID_KEY = Some (sessionId c)" "sessionId c \<noteq> []"
    using getSessionId_persisted[of "b_now b" "b_random b" st] by (simp_all add: c)
  have 4: "getSessionId now' rnd' st' = (sessionId c, st')"
    using 3 by (intro getSessionId_existing)
  have t: "tracked c w"
    unfolding w_def c_def by (intro tracked_run tracked_newClient)
  then have 5: "sessionId w = sessionId c" "instanceId w = iid"
    "reconnectAttempts w = attemptsSinceOpen (statusEvents w)"
    by (simp_all add: tracked_def c)
  have 6: "sent (step (SocketOpen s) w) = sent w @ map (Pair s)
           (filter (\<lambda>m. sendThrows w m = None)
              (Init (sessionId c) iid (0 < attemptsSinceOpen (statusEvents w)) (clock w)
               # messageQueue w))"
    using step_SocketOpen_sent[OF assms(4,5)] 5 by simp
  show ?thesis
    using 1 2 3(1) 4 5(1) 6 by blast
qed

lemma reconnectedClient_eq:
  "reconnectedClient =
     defaultClient\<lparr> ws := Some 1,
       connectionStatus := \<lparr> state = Connecting, error = None, reconnectAttempt = None, lastConnected = None \<rparr>,
       reconnectAttempts := 1, reconnectTimer := Some 1,
       sockets := [\<lparr>readyState = CLOSED, openListener = Some 0\<rparr>,
                   \<lparr>readyState = CONNECTING, openListener = Some 2\<rparr>],
       timers := [\<lparr>kind = ConnectionTimeout, delay = 10000, due = 10000, pending = True\<rparr>,
                  \<lparr>kind = ReconnectTimer, delay = 1000, due = 1000, pending = False\<rparr>,
                  \<lparr>kind = ConnectionTimeout, delay = 10000, due = 11000, pending = True\<rparr>],
       clock := 1000,
       statusEvents := [\<lparr> state = Connecting, error = None, reconnectAttempt = None, lastConnected = None \<rparr>,
                        \<lparr> state = Reconnecting, error = None, reconnectAttempt = None, lastConnected = None \<rparr>,
                        \<lparr> state = Reconnecting, error = None, reconnectAttempt = Some 1, lastConnected = None \<rparr>,
                        \<lparr> state = Connecting, error = None, reconnectAttempt = None, lastConnected = None \<rparr>] \<rparr>"
  by (simp add: reconnectedClient_def defaultClient_eq model_defs Let_def WS_CONFIG_def power_int_def)

theorem session_identity_stable_witness:
  "ws reconnectedClient = Some 1 \<and> 1 < length (sockets reconnectedClient) \<and>
   sessionId reconnectedClient = ''session_1700000000000_k3j9x2m1q'' \<and>
   sent (step (SocketOpen 1) reconnectedClient) =
     [(1, Init ''session_1700000000000_k3j9x2m1q'' ''client_1'' True 1000)] \<and>
   sent (step (SocketOpen 0) connectingClient) =
     [(0, Init ''session_1700000000000_k3j9x2m1q'' ''client_1'' False 0)]"
proof -
  note r = session_identity_stable[where p = noOverrides and iid = "''client_1''"
      and b = plainBrowser and st = Map.empty and es = "[CallConnect, SocketClose 0, TimerFires 1]"
      and s = 1, folded defaultClient_def reconnectedClient_def]
  note k = session_identity_stable[where p = noOverrides and iid = "''client_1''"
      and b = plainBrowser and st = Map.empty and es = "[CallConnect]"
      and s = 0, folded defaultClient_def connectingClient_def]
  have a: "ws reconnectedClient = Some 1" "1 < length (sockets reconnectedClient)"
    by (simp_all add: reconnectedClient_eq)
  have b: "ws connectingClient = Some 0" "0 < length (sockets connectingClient)"
    by (simp_all add: connectingClient_eq)
  have v: "sent reconnectedClient = []" "messageQueue reconnectedClient = []"
    "sendThrows reconnectedClient = (\<lambda>m. None)" "clock reconnectedClient = 1000"
    "sessionId defaultClient = ''session_1700000000000_k3j9x2m1q''"
    "attemptsSinceOpen (statusEvents reconnectedClient) = 1"
    "sent connectingClient = []" "messageQueue connectingClient = []"
    "sendThrows connectingClient = (\<lambda>m. None)" "clock connectingClient = 0"
    "attemptsSinceOpen (statusEvents connectingClient) = 0"
    by (simp_all add: reconnectedClient_eq connectingClient_eq defaultClient_eq attemptsSinceOpen_def)
  show ?thesis
    using r[OF a] k[OF b] a by (simp add: v)
qed

lemmas trace_defs = model_defs enabled_def Let_def WS_CONFIG_def power_int_def

section \<open>Timers that are overwritten, not cleared\<close>

text \<open>
  A pong that arrives before the next ping does cancel the timeout of the last ping.
\<close>

lemma pong_cancels_latest:
  assumes "isConnected w"
  shows "timers (handlePong (snd (heartbeatTick w))) = timers w @
           [\<lparr> kind = HeartbeatTimeout, delay = 30000, due = clock w + 30000, pending = False \<rparr>] \<and>
         heartbeatTimeoutTimer (handlePong (snd (heartbeatTick w))) = None"
  using assms
  by (auto simp: heartbeatTick_def sendMessage_def isConnected_def setTimer_def emitError_def
      handlePong_def clearTimer_def split: option.split)

text \<open>
  Claim C6 at a run the browser can deliver.  The connection timeout fires:
  \<open>handleReconnect\<close> schedules timer 1.  The close event of the socket follows:
  \<open>handleClose\<close> calls \<open>handleReconnect\<close> again, which schedules timer 2 and
  overwrites \<open>reconnectTimer\<close>.  \<open>disconnect()\<close> clears timer 2 only.  The status is
  \<open>disconnected\<close>; then timer 1 fires, calls \<open>connect()\<close>, and the client is
  connecting on a new socket with the intentional-close mark gone.
\<close>

theorem reconnect_after_disconnect:
  "feasible (staleReconnectTrace @ [TimerFires 1]) defaultClient \<and>
   state (connectionStatus (run staleReconnectTrace defaultClient)) = Disconnected \<and>
   isIntentionalClose (run staleReconnectTrace defaultClient) \<and>
   ws (run staleReconnectTrace defaultClient) = None \<and>
   state (connectionStatus (run (staleReconnectTrace @ [TimerFires 1]) defaultClient)) = Connecting \<and>
   \<not> isIntentionalClose (run (staleReconnectTrace @ [TimerFires 1]) defaultClient) \<and>
   ws (run (staleReconnectTrace @ [TimerFires 1]) defaultClient) = Some 1 \<and>
   readyStateOf (run (staleReconnectTrace @ [TimerFires 1]) defaultClient) 1 = CONNECTING"
  by (simp add: staleReconnectTrace_def defaultClient_eq trace_defs)

text \<open>
  Claim C4 at a run the browser can deliver.  Pings go out at 15000 and 30000; the
  second overwrites \<open>heartbeatTimeoutTimer\<close>, so the pong at 31000 clears the
  timeout of the second ping and the one at 32000 clears nothing.  Both pings are
  answered within 30 seconds, the socket is open at 32000; at 45000 the timeout of
  the first ping fires and closes it, and the close event makes the status
  \<open>reconnecting\<close>.
\<close>

theorem heartbeat_close_despite_pongs:
  "feasible (latePongTrace @ [TimerFires 2, SocketClose 0]) defaultClient \<and>
   sent (run latePongTrace defaultClient) =
     [(0, Init ''session_1700000000000_k3j9x2m1q'' ''client_1'' False 0),
      (0, Ping 15000), (0, Ping 30000)] \<and>
   clock (run latePongTrace defaultClient) = 32000 \<and>
   readyStateOf (run latePongTrace defaultClient) 0 = OPEN \<and>
   clock (run (latePongTrace @ [TimerFires 2]) defaultClient) = 45000 \<and>
   readyStateOf (run (latePongTrace @ [TimerFires 2]) defaultClient) 0 = CLOSING \<and>
   state (connectionStatus (run (latePongTrace @ [TimerFires 2, SocketClose 0]) defaultClient))
     = Reconnecting"
  by (simp add: latePongTrace_def defaultClient_eq trace_defs)

section \<open>The last attempt and after\<close>





section \<open>Classification of log lines\<close>

lemmas string_eval =
  ascii_def js_includes_def sublist_code magnifier_def check_mark_def package_def rocket_def
  floppy_disk_def party_popper_def tick_def lower_def lineTerminator_def digit_def wordChar_def
  whiteSpace_def separated_word_def parseInt_def Let_def decimal.simps

lemma parse_no_milestone:
  assumes "\<not> milestone m"
  shows "parseBackendLog m =
           (if errorMarker m
            then Some \<lparr> stage = unknown, status = St_error, details = None, message = Some m,
                        progress = 0 \<rparr>
            else None)"
proof -
  note a = assms[unfolded milestone_def de_Morgan_disj]
  have c: "\<not> (js_includes m (ascii ''Cloning'') \<and> js_includes m (ascii ''to''))"
    "\<not> (js_includes m (ascii ''Building'') \<and> js_includes m (ascii ''%''))"
    using a by blast+
  show ?thesis
    unfolding parseBackendLog_def errorMarker_def
    using a by (simp add: c)
qed

lemma unclassified_no_milestone:
  assumes "case parseBackendLog m of
             None \<Rightarrow> True
           | Some u \<Rightarrow> status u = St_error \<or> stage u = unknown"
  shows "\<not> milestone m"
  using assms unfolding milestone_def parseBackendLog_def update_def Let_def
  by (simp split: if_split_asm)

lemma parse_milestone:
  assumes "milestone m"
  shows "\<exists>u. parseBackendLog m = Some u \<and> status u \<noteq> St_error \<and> stage u \<noteq> unknown"
  using assms unclassified_no_milestone[of m]
  by (cases "parseBackendLog m") auto

text \<open>
  Claim C5, as stated, fails: a line with the marker \<open>[ERROR]\<close> that also contains
  the text of a milestone is classified as that milestone, here the start of the
  container build.
\<close>

theorem error_not_first_counterexample:
  "errorMarker (ascii ''[ERROR] Building container image failed'') \<and>
   parseBackendLog (ascii ''[ERROR] Building container image failed'') =
     Some \<lparr> stage = container_build, status = St_in_progress,
            details = Some [ascii ''Building Docker image...''], message = None,
            progress = 65 \<rparr>"
  by (simp add: parseBackendLog_def errorMarker_def update_def string_eval)

text \<open>
  Claim C5, amended.  A line that carries an error marker (\<open>Error:\<close>, \<open>Failed:\<close> or
  \<open>[ERROR]\<close>) is classified as an error, with stage \<open>unknown\<close>, the line as message
  and progress 0, when it matches no milestone pattern; when it matches one, the
  milestone classification is returned, so the milestone patterns come first.
\<close>

theorem error_classification:
  assumes "errorMarker m"
  shows "(\<not> milestone m \<longrightarrow>
            parseBackendLog m =
              Some \<lparr> stage = unknown, status = St_error, details = None, message = Some m,
                     progress = 0 \<rparr>) \<and>
         (milestone m \<longrightarrow>
            (\<exists>u. parseBackendLog m = Some u \<and> status u \<noteq> St_error \<and> stage u \<noteq> unknown))"
  using assms parse_no_milestone[of m] parse_milestone[of m] by auto

theorem error_classification_witness:
  "errorMarker (ascii ''Error: out of memory'') \<and>
   \<not> milestone (ascii ''Error: out of memory'') \<and>
   parseBackendLog (ascii ''Error: out of memory'') =
     Some \<lparr> stage = unknown, status = St_error, details = None,
            message = Some (ascii ''Error: out of memory''), progress = 0 \<rparr> \<and>
   errorMarker (ascii ''Failed: Security scan'') \<and>
   milestone (ascii ''Failed: Security scan'') \<and>
   (\<exists>u. parseBackendLog (ascii ''Failed: Security scan'') = Some u \<and> status u \<noteq> St_error)"
proof -
  have a: "errorMarker (ascii ''Error: out of memory'')"
    "\<not> milestone (ascii ''Error: out of memory'')"
    by (simp_all add: errorMarker_def milestone_def string_eval)
  have b: "errorMarker (ascii ''Failed: Security scan'')"
    "milestone (ascii ''Failed: Security scan'')"
    by (simp_all add: errorMarker_def milestone_def string_eval)
  show ?thesis
    using error_classification[OF a(1)] error_classification[OF b(1)] a b by blast
qed

lemma preflight_passed_has_preflight:
  assumes "js_includes m (check_mark @ ascii '' All pre-flight checks passed'')"
  shows "js_includes m (ascii ''pre-flight'')"
proof -
  have "sublist (ascii ''pre-flight'') (check_mark @ ascii '' All pre-flight checks passed'')"
    by (simp add: string_eval)
  then show ?thesis
    using assms unfolding js_includes_def by (rule sublist_order.order_trans)
qed

text \<open>No line is classified as the completion of the pre-flight checks.\<close>

lemma preflight_complete_unreachable:
  assumes "parseBackendLog m = Some u" "stage u = repo_access" "status u = St_success"
  shows "progress u = 15"
  using assms preflight_passed_has_preflight[of m]
  unfolding parseBackendLog_def update_def Let_def
  by (auto split: if_split_asm)

text \<open>
  The lines of a successful run that no earlier test takes over are classified with
  increasing progress, up to 100.
\<close>

lemma other_milestones_increase:
  "map (map_option progress \<circ> parseBackendLog)
     [ascii ''Cloning repository...'', ascii ''Repository cloned'',
      ascii ''Starting code analysis'', ascii ''Analyzing project at /tmp/repo'',
      ascii ''Detected framework: FastAPI'', ascii ''Analysis complete'',
      ascii ''Generating Dockerfile...'', floppy_disk @ ascii '' Saving Dockerfile to project...'',
      check_mark @ ascii '' Dockerfile saved'', ascii ''Scanning for vulnerabilities'',
      ascii ''No vulnerabilities found'', ascii ''Building container image...'',
      ascii ''Build complete'', ascii ''Deploying to Cloud Run...'',
      ascii ''Deployment progress'', magnifier @ ascii '' Verifying deployment health...'',
      ascii ''Deployment successful'']
     = [Some 5, Some 15, Some 20, Some 25, Some 30, Some 35, Some 40, Some 48, Some 50,
        Some 55, Some 60, Some 65, Some 80, Some 85, Some 90, Some 95, Some 100]"
  by (simp add: parseBackendLog_def update_def string_eval)

text \<open>
  Claim C9 at the log of a successful run as the repository documents it.  The line
  that reports the end of the pre-flight checks contains \<open>pre-flight\<close> and is taken
  by the first test of the chain, so the progress goes from 2 back to 1 and the
  stage never reports success with progress 3; likewise \<open>Security scan complete\<close>
  is classified as the start of the scan.  The last line of the run does return 100.
\<close>

theorem preflight_progress_regresses:
  "map (map_option progress \<circ> parseBackendLog)
     [magnifier @ ascii '' Running pre-flight checks...'',
      check_mark @ ascii '' Project access verified'',
      check_mark @ ascii '' Artifact Registry ready'',
      check_mark @ ascii '' All pre-flight checks passed'']
     = [Some 1, Some 1, Some 2, Some 1] \<and>
   map_option status (parseBackendLog (check_mark @ ascii '' All pre-flight checks passed''))
     = Some St_in_progress \<and>
   map_option progress (parseBackendLog (ascii ''Security scan complete'')) = Some 55 \<and>
   map_option progress (parseBackendLog (party_popper @ ascii '' Deployment complete!''))
     = Some 100"
  by (simp add: parseBackendLog_def update_def string_eval)

end
